theory Spec2Isabelle
  imports Complex_Main "HOL-Library.List_Lexorder" "HOL-Library.Char_ord" "HOL-Library.Product_Lexorder"
begin

section \<open>Errors and results\<close>

text \<open>
  The Python exceptions the three conversion scripts can raise by themselves.
  \<open>KeyError\<close> and \<open>IndexError\<close> are subclasses of Python's \<open>LookupError\<close>;
  \<open>ValueError\<close> and \<open>TypeError\<close> are not. Failures inside the readers and writers of the conversion
  framework are not part of this development: a collaborator call is taken to return.
\<close>

datatype py_error = ValueError | KeyError | IndexError | LookupError | TypeError

fun is_LookupError :: "py_error \<Rightarrow> bool" where
  "is_LookupError ValueError = False"
| "is_LookupError KeyError = True"
| "is_LookupError IndexError = True"
| "is_LookupError LookupError = True"
| "is_LookupError TypeError = False"

text \<open>\<open>xs[i]\<close> for a non-negative literal index: out of range raises \<open>IndexError\<close>.\<close>

definition item :: "'a list \<Rightarrow> nat \<Rightarrow> py_error + 'a" where
  "item xs i = (if i < length xs then Inr (xs ! i) else Inl IndexError)"

text \<open>
  \<open>x[i]\<close> on a value that \<open>read_mat\<close> returns for a MATLAB array. An array of one
  element comes back as a scalar, and subscripting a scalar raises \<open>TypeError\<close>; an
  array of no or of several elements is subscripted as a sequence.
\<close>

definition mat_item :: "'a list \<Rightarrow> nat \<Rightarrow> py_error + 'a" where
  "mat_item xs i = (if length xs = 1 then Inl TypeError else item xs i)"

text \<open>\<open>d[k]\<close> on a dict: a missing key raises \<open>KeyError\<close>.\<close>

definition getitem :: "('k \<rightharpoonup> 'v) \<Rightarrow> 'k \<Rightarrow> py_error + 'v" where
  "getitem d k = (case d k of None \<Rightarrow> Inl KeyError | Some v \<Rightarrow> Inr v)"

text \<open>Sequencing of fallible pure steps: the first exception ends the evaluation.\<close>

definition and_then :: "py_error + 'a \<Rightarrow> ('a \<Rightarrow> py_error + 'b) \<Rightarrow> py_error + 'b" where
  "and_then r f = (case r of Inl e \<Rightarrow> Inl e | Inr v \<Rightarrow> f v)"

section \<open>Frame-index windows\<close>

text \<open>
  \<open>np.arange(start, stop)\<close> on integers: \<open>start, start + 1, ...\<close> while below \<open>stop\<close>;
  empty when \<open>stop \<le> start\<close>. The numbers of an index field are whole numbers in one of
  MATLAB's numeric classes, and the function is \<open>np.arange\<close> on them where that class
  computes as the integers do: for \<open>0 \<le> start \<le> stop\<close>, up to \<open>2 ^ 24\<close> (above, single
  precision rounds; an unsigned class wraps when \<open>stop < start\<close> or below zero). The
  theorem on the window keeps to this range.
\<close>

definition np_arange :: "int \<Rightarrow> int \<Rightarrow> int list" where
  "np_arange start stop = map (\<lambda>i. start + int i) [0..<nat (stop - start)]"

text \<open>
  The expression \<open>list(np.arange(d[f][0]-1, d[f][1]))\<close>, which the dual-wavelength
  script evaluates for each channel (lines 77 and 80) and the single-wavelength script
  evaluates once (lines 86-87). Python evaluates the first argument of \<open>np.arange\<close>
  before the second.
\<close>

definition frame_indices_of :: "(string \<rightharpoonup> int list) \<Rightarrow> string \<Rightarrow> py_error + int list" where
  "frame_indices_of d f =
     and_then (getitem d f) (\<lambda>idx.
     and_then (mat_item idx 0) (\<lambda>s.
     and_then (mat_item idx 1) (\<lambda>e.
       Inr (np_arange (s - 1) e))))"

section \<open>Photon-series names\<close>

text \<open>The dict literal of lines 171-176 of the single-wavelength script.\<close>

definition excitation_wavelength_to_photon_series_name :: "int \<rightharpoonup> string" where
  "excitation_wavelength_to_photon_series_name =
     [470 \<mapsto> ''Green'', 405 \<mapsto> ''GreenIsosbestic'', 415 \<mapsto> ''GreenIsosbestic'', 570 \<mapsto> ''Red'']"

section \<open>Paths and files\<close>

text \<open>
  A \<open>pathlib.Path\<close> as the list of its components: \<open>p / name\<close> appends a component,
  \<open>p.parent\<close> drops the last one, \<open>p.name\<close> is the last one and \<open>str(p)\<close> joins them.
  The right operand of \<open>/\<close> is taken to be one relative component, a file or directory
  name: an operand with a separator in it is several components for \<open>pathlib\<close>, and an
  absolute one replaces the left operand.
\<close>

type_synonym path = "string list"

definition path_div :: "path \<Rightarrow> string \<Rightarrow> path" where
  "path_div p c = p @ [c]"

definition parent :: "path \<Rightarrow> path" where
  "parent p = butlast p"

definition name :: "path \<Rightarrow> string" where
  "name p = (if p = [] then [] else last p)"

fun path_str :: "path \<Rightarrow> string" where
  "path_str [] = ''.''"
| "path_str [c] = c"
| "path_str (c # cs) = c @ ''/'' @ path_str cs"

section \<open>Inputs\<close>

text \<open>
  One row of the "Sessions" sheet, with the columns the batch script reads. The column
  "Raw Imaging File: green" is the field \<open>Raw_Imaging_File_green\<close>, and so on. A cell of
  the two columns the rows are grouped by holds a text or is empty (\<open>None\<close>, the \<open>NaN\<close> of
  pandas); the cells of the other columns hold texts, and those of the wavelengths
  whole numbers. A cell that pandas reads as a number where the script joins it to a
  path (a directory named by digits only, kept as a number in the sheet) is outside
  this record: line 73 then raises \<open>TypeError\<close>.
\<close>

record session =
  Mouse :: "string option"
  Experiment_Directory :: "string option"
  Raw_Imaging_File_green :: string
  Raw_Imaging_File_red :: string
  Processed_Data_File :: string
  Processed_Photometry_Field_green :: string
  Processed_Photometry_Field_red :: string
  Processed_Behavior_Field_green :: string
  Processed_Behavior_Field_red :: string
  Processed_Index_Field_green :: string
  Processed_Index_Field_red :: string
  LED_Excitation_Wavelength_green :: int
  LED_Excitation_Wavelength_red :: int
  Relevant_Injected_Sensor_green :: string
  Relevant_Injected_Sensor_red :: string
  Raw_Behavior_File :: string

text \<open>\<open>.astype(str)\<close> on a cell: an empty cell becomes the text \<open>nan\<close>.\<close>

definition astype_str :: "string option \<Rightarrow> string" where
  "astype_str c = (case c of None \<Rightarrow> ''nan'' | Some t \<Rightarrow> t)"

text \<open>
  The "Mice" sheet after \<open>.astype(str)\<close>: each subject identifier with its attributes.
\<close>

type_synonym subject_attributes = "(string \<times> string) list"

type_synonym mice_table = "(string \<times> subject_attributes) list"

text \<open>
  The processed-data struct read by \<open>read_mat\<close>: the index fields are integer arrays,
  the behavior fields are structs of arrays (of which the scripts read \<open>timestamp\<close>).
\<close>

record processed_data =
  arrays :: "string \<rightharpoonup> int list"
  structs :: "string \<rightharpoonup> (string \<rightharpoonup> real list)"

record fiber =
  location :: string
  included :: bool

section \<open>Conversion configuration and output handle\<close>

record imaging_source =
  img_file_path :: string
  img_frame_indices :: "int list"
  img_sampling_frequency :: "real option"

record fiber_photometry_source =
  fp_file_path :: string
  fp_data_field :: string
  fp_ttl_file_path :: string
  fp_ttl_stream_name :: string

record segmentation_source =
  seg_file_path :: string
  seg_data_field :: string
  seg_sampling_frequency :: "real option"
  seg_accepted_list :: "nat list"

record behavior_source =
  beh_file_path :: string
  beh_data_field :: string

text \<open>The dict \<open>source_data\<close>; the key \<open>Behavior\<close> may be absent.\<close>

record source_data =
  Imaging :: imaging_source
  FiberPhotometry :: fiber_photometry_source
  Segmentation :: segmentation_source
  Behavior :: "behavior_source option"

record imaging_options =
  img_stub_test :: bool
  photon_series_type :: string
  photon_series_index :: nat

record fiber_photometry_options =
  fp_stub_test :: bool
  fiber_locations_metadata :: "fiber list"

text \<open>The dict \<open>conversion_options\<close>; for Segmentation and Behavior it holds \<open>stub_test\<close> only.\<close>

record conversion_options =
  Imaging_options :: imaging_options
  FiberPhotometry_options :: fiber_photometry_options
  Segmentation_options :: bool
  Behavior_options :: "bool option"

text \<open>
  The metadata the single-wavelength script assembles. The defaults of the converter
  and of the YAML files, and the deep merge, belong to the framework; the record keeps
  the values the script itself puts in.
\<close>

record metadata =
  session_id :: string
  subject :: "subject_attributes option"
  fiber_photometry_response_series_name :: string
  one_photon_series_name :: string
  series_excitation_wavelength_in_nm :: int
  series_excitation_mode :: string
  series_indicator :: string

text \<open>
  The in-memory \<open>NWBFile\<close>: what the converter was built from and called with, once per
  \<open>create_nwbfile\<close> or \<open>add_to_nwbfile\<close>, oldest first.
\<close>

record added_streams =
  source :: source_data
  options :: conversion_options
  meta :: metadata
  starting_time :: "real option"

type_synonym nwbfile = "added_streams list"

section \<open>Arguments, calls and the world\<close>

text \<open>
  The keyword arguments the two assemblers have in common, then those of each. A
  parameter that defaults to \<open>None\<close> is an option. The dual-wavelength assembler's
  \<open>nwbfile_path\<close> is required, so it has a field of its own.
\<close>

record shared_args =
  processed_data_file_path :: path
  fiber_locations_file_path :: path
  ttl_file_path :: path
  sampling_frequency :: "real option"
  subject_metadata :: "subject_attributes option"
  stub_test :: bool

record single_args = shared_args +
  raw_imaging_file_path :: path
  fiber_photometry_field :: string
  index_field :: string
  excitation_wavelength_in_nm :: int
  indicator :: string
  ttl_stream_name :: string
  behavior_field :: "string option"
  frame_indices :: "int list option"
  nwbfile_path :: "path option"
  nwbfile :: "nwbfile option"
  aligned_starting_time :: "real option"
  excitation_mode :: string

record dual_args = shared_args +
  raw_imaging_file_paths :: "path list"
  fiber_photometry_fields :: "string list"
  behavior_fields :: "string list"
  index_fields :: "string list"
  excitation_wavelengths_in_nm :: "int list"
  indicators :: "string list"
  ttl_stream_names :: "string list"
  dual_nwbfile_path :: path

text \<open>
  The calls a run makes, in order: the entries into the two assemblers with their
  arguments, and the calls to the readers, the converter, the writer and the inspector.
\<close>

datatype call =
    Dual_wavelength_session_to_nwb dual_args
  | Single_wavelength_session_to_nwb single_args
  | Read_mat path
  | Get_fiber_locations path
  | New_converter source_data
  | Create_nwbfile metadata conversion_options
  | Add_to_nwbfile nwbfile metadata conversion_options "real option"
  | Configure_and_write_nwbfile nwbfile path
  | Inspect_nwbfile path
  | Save_report path "string list"

datatype file_content = NWB nwbfile | Report "string list"

text \<open>The output filesystem and the calls made so far.\<close>

record world =
  files :: "path \<rightharpoonup> file_content"
  calls :: "call list"

definition record_call :: "call \<Rightarrow> world \<Rightarrow> world" where
  "record_call c w = w\<lparr>calls := calls w @ [c]\<rparr>"

definition write_file :: "path \<Rightarrow> file_content \<Rightarrow> world \<Rightarrow> world" where
  "write_file p c w = w\<lparr>files := (files w)(p \<mapsto> c)\<rparr>"

definition exists_path :: "world \<Rightarrow> path \<Rightarrow> bool" where
  "exists_path w p = (files w p \<noteq> None)"

text \<open>
  The collaborators whose results the scripts use: the readers of the session table,
  of the processed-data struct and of the fiber table, the helper that extracts the
  indicator from the sensor string, and the inspector with its formatter.
\<close>

record env =
  read_excel :: "path \<Rightarrow> session list \<times> mice_table"
  read_mat :: "path \<Rightarrow> processed_data"
  get_fiber_locations :: "path \<Rightarrow> fiber list"
  get_indicator_from_aav_string :: "string \<Rightarrow> string"
  inspect_nwbfile :: "file_content option \<Rightarrow> string list"
  format_messages :: "string list \<Rightarrow> string list"

section \<open>The single-wavelength assembler\<close>

text \<open>Line 119: the positions of the fibers whose \<open>included\<close> flag is set.\<close>

definition accepted_list_of :: "fiber list \<Rightarrow> nat list" where
  "accepted_list_of fiber_locations = map fst (filter (\<lambda>(fiber_ind, fiber). included fiber) (enumerate 0 fiber_locations))"

text \<open>
  The dict \<open>source_data\<close> as it stands at line 142, when the converter is built from it.
  The key \<open>sampling_frequency\<close> of Imaging is set when the argument is not \<open>None\<close>, the
  key \<open>Behavior\<close> when \<open>behavior_field\<close> is not \<open>None\<close>.
\<close>

definition build_source_data :: "single_args \<Rightarrow> int list \<Rightarrow> nat list \<Rightarrow> source_data" where
  "build_source_data a window accepted_list =
     \<lparr>Imaging =
        \<lparr>img_file_path = path_str (raw_imaging_file_path a),
         img_frame_indices = window,
         img_sampling_frequency = sampling_frequency a\<rparr>,
      FiberPhotometry =
        \<lparr>fp_file_path = path_str (processed_data_file_path a),
         fp_data_field = fiber_photometry_field a,
         fp_ttl_file_path = path_str (ttl_file_path a),
         fp_ttl_stream_name = ttl_stream_name a\<rparr>,
      Segmentation =
        \<lparr>seg_file_path = path_str (processed_data_file_path a),
         seg_data_field = fiber_photometry_field a,
         seg_sampling_frequency = sampling_frequency a,
         seg_accepted_list = accepted_list\<rparr>,
      Behavior =
        (case behavior_field a of
           None \<Rightarrow> None
         | Some field \<Rightarrow>
             Some \<lparr>beh_file_path = path_str (processed_data_file_path a), beh_data_field = field\<rparr>)\<rparr>"

definition build_conversion_options :: "single_args \<Rightarrow> fiber list \<Rightarrow> conversion_options" where
  "build_conversion_options a fiber_locations =
     \<lparr>Imaging_options =
        \<lparr>img_stub_test = stub_test a, photon_series_type = ''OnePhotonSeries'', photon_series_index = 0\<rparr>,
      FiberPhotometry_options =
        \<lparr>fp_stub_test = stub_test a, fiber_locations_metadata = fiber_locations\<rparr>,
      Segmentation_options = stub_test a,
      Behavior_options = (case behavior_field a of None \<Rightarrow> None | Some field \<Rightarrow> Some (stub_test a))\<rparr>"

definition build_metadata :: "single_args \<Rightarrow> string \<Rightarrow> metadata" where
  "build_metadata a name_suffix =
     \<lparr>session_id = name (parent (processed_data_file_path a)),
      subject = subject_metadata a,
      fiber_photometry_response_series_name = ''FiberPhotometryResponseSeries'' @ name_suffix,
      one_photon_series_name = ''OnePhotonSeries'' @ name_suffix,
      series_excitation_wavelength_in_nm = excitation_wavelength_in_nm a,
      series_excitation_mode = excitation_mode a,
      series_indicator = indicator a\<rparr>"

text \<open>Lines 207-210: return the handle, or write it when a path was given.\<close>

definition return_or_write :: "path option \<Rightarrow> nwbfile \<Rightarrow> world \<Rightarrow> (py_error + nwbfile option) \<times> world" where
  "return_or_write output_filepath handle w =
     (case output_filepath of
        None \<Rightarrow> (Inr (Some handle), w)
      | Some p \<Rightarrow>
          (Inr None, write_file p (NWB handle) (record_call (Configure_and_write_nwbfile handle p) w)))"

text \<open>
  \<open>single_wavelength_session_to_nwb\<close>. Lines 86-87 assign \<open>frame_indices\<close> from the
  index field of the struct whatever the argument \<open>frame_indices\<close> holds, so the
  argument is never read. The name lookup of line 178 comes before the handle is
  created or extended (lines 197-205).
\<close>

definition single_wavelength_session_to_nwb ::
    "env \<Rightarrow> single_args \<Rightarrow> world \<Rightarrow> (py_error + nwbfile option) \<times> world" where
  "single_wavelength_session_to_nwb env a w0 =
     (let w1 = record_call (Read_mat (processed_data_file_path a))
                 (record_call (Single_wavelength_session_to_nwb a) w0)
      in case frame_indices_of (arrays (read_mat env (processed_data_file_path a))) (index_field a) of
           Inl e \<Rightarrow> (Inl e, w1)
         | Inr window \<Rightarrow>
            (let w2 = record_call (Get_fiber_locations (fiber_locations_file_path a)) w1;
                 fiber_locations = get_fiber_locations env (fiber_locations_file_path a);
                 source_data = build_source_data a window (accepted_list_of fiber_locations);
                 conversion_options = build_conversion_options a fiber_locations;
                 w3 = record_call (New_converter source_data) w2
             in case excitation_wavelength_to_photon_series_name (excitation_wavelength_in_nm a) of
                  None \<Rightarrow> (Inl KeyError, w3)
                | Some name_suffix \<Rightarrow>
                   (let metadata = build_metadata a name_suffix
                    in case nwbfile a of
                         None \<Rightarrow>
                           return_or_write (nwbfile_path a)
                             [\<lparr>source = source_data, options = conversion_options,
                               meta = metadata, starting_time = None\<rparr>]
                             (record_call (Create_nwbfile metadata conversion_options) w3)
                       | Some handle \<Rightarrow>
                           return_or_write (nwbfile_path a)
                             (handle @ [\<lparr>source = source_data, options = conversion_options,
                               meta = metadata, starting_time = aligned_starting_time a\<rparr>])
                             (record_call (Add_to_nwbfile handle metadata conversion_options
                                (aligned_starting_time a)) w3))))"

section \<open>The dual-wavelength assembler\<close>

text \<open>
  Lines 76-78 for channel 0 and lines 79-81 for channel 1: the behavior struct of the
  channel, its frame-index window and its first timestamp.
\<close>

definition channel_alignment :: "processed_data \<Rightarrow> dual_args \<Rightarrow> nat \<Rightarrow> py_error + (int list \<times> real)" where
  "channel_alignment data d i =
     and_then (item (behavior_fields d) i) (\<lambda>field.
     and_then (getitem (structs data) field) (\<lambda>behavior_data.
     and_then (item (index_fields d) i) (\<lambda>idx.
     and_then (frame_indices_of (arrays data) idx) (\<lambda>window.
     and_then (getitem behavior_data ''timestamp'') (\<lambda>timestamps.
     and_then (mat_item timestamps 0) (\<lambda>t0.
       Inr (window, t0)))))))"

text \<open>The keyword arguments of the first call (lines 84-101).\<close>

definition first_call_args :: "dual_args \<Rightarrow> int list \<Rightarrow> real \<Rightarrow> py_error + single_args" where
  "first_call_args d window t0 =
     and_then (item (raw_imaging_file_paths d) 0) (\<lambda>raw.
     and_then (item (fiber_photometry_fields d) 0) (\<lambda>photometry.
     and_then (item (behavior_fields d) 0) (\<lambda>behavior.
     and_then (item (index_fields d) 0) (\<lambda>idx.
     and_then (item (excitation_wavelengths_in_nm d) 0) (\<lambda>wavelength.
     and_then (item (indicators d) 0) (\<lambda>ind.
     and_then (item (ttl_stream_names d) 0) (\<lambda>stream.
       Inr \<lparr>processed_data_file_path = processed_data_file_path d,
            fiber_locations_file_path = fiber_locations_file_path d,
            ttl_file_path = ttl_file_path d,
            sampling_frequency = sampling_frequency d,
            subject_metadata = subject_metadata d,
            stub_test = stub_test d,
            raw_imaging_file_path = raw,
            fiber_photometry_field = photometry,
            index_field = idx,
            excitation_wavelength_in_nm = wavelength,
            indicator = ind,
            ttl_stream_name = stream,
            behavior_field = Some behavior,
            frame_indices = Some window,
            nwbfile_path = None,
            nwbfile = None,
            aligned_starting_time = Some t0,
            excitation_mode = ''dual-wavelength''\<rparr>)))))))"

text \<open>
  The keyword arguments of the second call (lines 105-123): no \<open>behavior_field\<close>, the
  handle the first call returned, and the path to write.
\<close>

definition second_call_args :: "dual_args \<Rightarrow> int list \<Rightarrow> real \<Rightarrow> nwbfile option \<Rightarrow> py_error + single_args" where
  "second_call_args d window t0 handle =
     and_then (item (raw_imaging_file_paths d) 1) (\<lambda>raw.
     and_then (item (fiber_photometry_fields d) 1) (\<lambda>photometry.
     and_then (item (index_fields d) 1) (\<lambda>idx.
     and_then (item (excitation_wavelengths_in_nm d) 1) (\<lambda>wavelength.
     and_then (item (indicators d) 1) (\<lambda>ind.
     and_then (item (ttl_stream_names d) 1) (\<lambda>stream.
       Inr \<lparr>processed_data_file_path = processed_data_file_path d,
            fiber_locations_file_path = fiber_locations_file_path d,
            ttl_file_path = ttl_file_path d,
            sampling_frequency = sampling_frequency d,
            subject_metadata = subject_metadata d,
            stub_test = stub_test d,
            raw_imaging_file_path = raw,
            fiber_photometry_field = photometry,
            index_field = idx,
            excitation_wavelength_in_nm = wavelength,
            indicator = ind,
            ttl_stream_name = stream,
            behavior_field = None,
            frame_indices = Some window,
            nwbfile_path = Some (dual_nwbfile_path d),
            nwbfile = handle,
            aligned_starting_time = Some t0,
            excitation_mode = ''dual-wavelength''\<rparr>))))))"

definition dual_wavelength_session_to_nwb ::
    "env \<Rightarrow> dual_args \<Rightarrow> world \<Rightarrow> (py_error + unit) \<times> world" where
  "dual_wavelength_session_to_nwb env d w0 =
     (let w1 = record_call (Read_mat (processed_data_file_path d))
                 (record_call (Dual_wavelength_session_to_nwb d) w0);
          data = read_mat env (processed_data_file_path d)
      in case and_then (channel_alignment data d 0) (\<lambda>first.
              and_then (channel_alignment data d 1) (\<lambda>second.
              and_then (first_call_args d (fst first) (snd first)) (\<lambda>a1. Inr (a1, second)))) of
           Inl e \<Rightarrow> (Inl e, w1)
         | Inr (a1, second) \<Rightarrow>
            (case single_wavelength_session_to_nwb env a1 w1 of
               (Inl e, w2) \<Rightarrow> (Inl e, w2)
             | (Inr handle, w2) \<Rightarrow>
                (case second_call_args d (fst second) (snd second) handle of
                   Inl e \<Rightarrow> (Inl e, w2)
                 | Inr a2 \<Rightarrow>
                    (case single_wavelength_session_to_nwb env a2 w2 of
                       (Inl e, w3) \<Rightarrow> (Inl e, w3)
                     | (Inr r, w3) \<Rightarrow> (Inr (), w3)))))"

section \<open>The batch driver\<close>

text \<open>
  Modelled from the spec: \<open>_get_subject_metadata_from_dataframe\<close> is defined in
  \<open>utils/_data_utils.py\<close>, which is not among the sources. The spec (4.2) gives it: the
  attributes of the subject with that identifier, and a \<open>LookupError\<close> when the
  identifier is absent from the table.
\<close>

definition get_subject_metadata_from_dataframe :: "string \<Rightarrow> mice_table \<Rightarrow> py_error + subject_attributes" where
  "get_subject_metadata_from_dataframe subject_id data_table =
     (case map_of data_table subject_id of
        None \<Rightarrow> Inl LookupError
      | Some attributes \<Rightarrow> Inr attributes)"

text \<open>
  \<open>groupby(["Mouse", "Experiment Directory"])\<close>: one group per distinct key, the keys in
  ascending order, each group with its rows in the order of the table. A row with an
  empty cell in one of the two columns has no key and is in no group (\<open>dropna=True\<close>, the
  default).
\<close>

definition session_key :: "session \<Rightarrow> (string \<times> string) option" where
  "session_key r =
     (case Mouse r of
        None \<Rightarrow> None
      | Some mouse \<Rightarrow>
          (case Experiment_Directory r of None \<Rightarrow> None | Some exp_dir \<Rightarrow> Some (mouse, exp_dir)))"

definition session_groups :: "session list \<Rightarrow> ((string \<times> string) \<times> session list) list" where
  "session_groups t =
     map (\<lambda>k. (k, filter (\<lambda>r. session_key r = Some k) t))
       (sort (remdups (List.map_filter session_key t)))"

text \<open>Line 71: \<open>str(subject_id).replace("-", "")\<close>.\<close>

definition strip_hyphens :: "string \<Rightarrow> string" where
  "strip_hyphens subject_id = filter (\<lambda>c. c \<noteq> CHR ''-'') subject_id"

text \<open>Lines 85-87: the output file of a session.\<close>

definition session_nwbfile_path :: "path \<Rightarrow> bool \<Rightarrow> string \<Rightarrow> string \<Rightarrow> path" where
  "session_nwbfile_path nwbfile_folder_path stub subject_id exp_dir =
     (if stub then path_div nwbfile_folder_path (''stub-'' @ subject_id @ ''_'' @ exp_dir @ ''.nwb'')
      else path_div nwbfile_folder_path (subject_id @ ''_'' @ exp_dir @ ''.nwb''))"

text \<open>Line 111: the inspector report of a session.\<close>

definition session_report_path :: "path \<Rightarrow> string \<Rightarrow> string \<Rightarrow> path" where
  "session_report_path nwbfile_folder_path subject_id exp_dir =
     path_div nwbfile_folder_path (subject_id @ ''-'' @ exp_dir @ ''_nwbinspector_result.txt'')"

text \<open>
  Lines 72-84 and 94-108: the arguments of the call to the dual-wavelength assembler,
  from the first row of the group. \<open>stub_test\<close> is not passed on, so it has its
  default \<open>False\<close>.
\<close>

definition session_args ::
    "env \<Rightarrow> path \<Rightarrow> path \<Rightarrow> subject_attributes \<Rightarrow> string \<Rightarrow> string \<Rightarrow> session \<Rightarrow> dual_args" where
  "session_args env folder_path output_path subject_md subject_id exp_dir row =
     (let subject_folder_path = path_div folder_path subject_id;
          session_folder_path = path_div subject_folder_path exp_dir
      in \<lparr>processed_data_file_path = path_div session_folder_path (Processed_Data_File row),
          fiber_locations_file_path = path_div subject_folder_path ''fiber_table.xlsx'',
          ttl_file_path = path_div (path_div session_folder_path ''raw'') (Raw_Behavior_File row),
          sampling_frequency = Some 18,
          subject_metadata = Some subject_md,
          stub_test = False,
          raw_imaging_file_paths =
            [path_div (path_div session_folder_path ''raw'') (Raw_Imaging_File_green row),
             path_div (path_div session_folder_path ''raw'') (Raw_Imaging_File_red row)],
          fiber_photometry_fields =
            [Processed_Photometry_Field_green row, Processed_Photometry_Field_red row],
          behavior_fields = [Processed_Behavior_Field_green row, Processed_Behavior_Field_red row],
          index_fields = [Processed_Index_Field_green row, Processed_Index_Field_red row],
          excitation_wavelengths_in_nm =
            [LED_Excitation_Wavelength_green row, LED_Excitation_Wavelength_red row],
          indicators =
            [get_indicator_from_aav_string env (Relevant_Injected_Sensor_green row),
             get_indicator_from_aav_string env (Relevant_Injected_Sensor_red row)],
          ttl_stream_names = [''ttlIn1'', ''ttlIn2''],
          dual_nwbfile_path = output_path\<rparr>)"

text \<open>Lines 110-119: inspect the written file; save the report unless one exists.\<close>

definition inspector_step :: "env \<Rightarrow> path \<Rightarrow> path \<Rightarrow> world \<Rightarrow> world" where
  "inspector_step env output_path report_path w =
     (let results = inspect_nwbfile env (files w output_path);
          w1 = record_call (Inspect_nwbfile output_path) w
      in if \<not> exists_path w1 report_path
         then write_file report_path (Report (format_messages env results))
                (record_call (Save_report report_path (format_messages env results)) w1)
         else w1)"

text \<open>
  The body of the loop (lines 69-121) for one group: the subject lookup of line 69
  comes first, the check for an existing output file (line 88) after it.
\<close>

definition convert_session ::
    "env \<Rightarrow> mice_table \<Rightarrow> path \<Rightarrow> path \<Rightarrow> bool \<Rightarrow> bool \<Rightarrow>
     (string \<times> string) \<times> session list \<Rightarrow> world \<Rightarrow> (py_error + unit) \<times> world" where
  "convert_session env subjects_table folder_path nwbfile_folder_path stub overwrite g w =
     (case get_subject_metadata_from_dataframe (fst (fst g)) subjects_table of
        Inl e \<Rightarrow> (Inl e, w)
      | Inr subject_md \<Rightarrow>
         (case item (snd g) 0 of
            Inl e \<Rightarrow> (Inl e, w)
          | Inr row \<Rightarrow>
             (let subject_id = strip_hyphens (fst (fst g));
                  exp_dir = snd (fst g);
                  output_path = session_nwbfile_path nwbfile_folder_path stub subject_id exp_dir
              in if exists_path w output_path \<and> \<not> overwrite then (Inr (), w)
                 else
                   (case dual_wavelength_session_to_nwb env
                           (session_args env folder_path output_path subject_md subject_id exp_dir row) w of
                      (Inl e, w1) \<Rightarrow> (Inl e, w1)
                    | (Inr u, w1) \<Rightarrow>
                        (Inr (), inspector_step env output_path
                                   (session_report_path nwbfile_folder_path subject_id exp_dir) w1)))))"

text \<open>The loop of line 68: an exception in one group ends the batch.\<close>

fun convert_sessions ::
    "env \<Rightarrow> mice_table \<Rightarrow> path \<Rightarrow> path \<Rightarrow> bool \<Rightarrow> bool \<Rightarrow>
     ((string \<times> string) \<times> session list) list \<Rightarrow> world \<Rightarrow> (py_error + unit) \<times> world" where
  "convert_sessions env subjects_table folder_path nwbfile_folder_path stub overwrite [] w = (Inr (), w)"
| "convert_sessions env subjects_table folder_path nwbfile_folder_path stub overwrite (g # gs) w =
     (case convert_session env subjects_table folder_path nwbfile_folder_path stub overwrite g w of
        (Inl e, w1) \<Rightarrow> (Inl e, w1)
      | (Inr u, w1) \<Rightarrow>
          convert_sessions env subjects_table folder_path nwbfile_folder_path stub overwrite gs w1)"

text \<open>
  \<open>convert_all_dual_wavelength_sessions\<close>: the filter of line 50 and the \<open>ValueError\<close>
  of lines 51-52 come before the loop.
\<close>

definition convert_all_dual_wavelength_sessions ::
    "env \<Rightarrow> path \<Rightarrow> path \<Rightarrow> path \<Rightarrow> string list \<Rightarrow> bool \<Rightarrow> bool \<Rightarrow> world \<Rightarrow>
     (py_error + unit) \<times> world" where
  "convert_all_dual_wavelength_sessions env data_table_path folder_path nwbfile_folder_path
       subject_ids stub overwrite w =
     (let data_table = fst (read_excel env data_table_path);
          filtered_data_table = filter (\<lambda>r. astype_str (Mouse r) \<in> set subject_ids) data_table;
          subjects_table = snd (read_excel env data_table_path)
      in if filtered_data_table = [] then (Inl ValueError, w)
         else convert_sessions env subjects_table folder_path nwbfile_folder_path stub overwrite
                (session_groups filtered_data_table) w)"

section \<open>Observations and example inputs\<close>

text \<open>The calls that create, extend or write an output handle.\<close>

fun is_handle_call :: "call \<Rightarrow> bool" where
  "is_handle_call (Create_nwbfile m c) = True"
| "is_handle_call (Add_to_nwbfile h m c t) = True"
| "is_handle_call (Configure_and_write_nwbfile h p) = True"
| "is_handle_call c = False"

definition handle_calls :: "world \<Rightarrow> call list" where
  "handle_calls w = filter is_handle_call (calls w)"

text \<open>The arguments of the entries into the two assemblers, and what converters were built from.\<close>

fun dual_call_args :: "call \<Rightarrow> dual_args list" where
  "dual_call_args (Dual_wavelength_session_to_nwb d) = [d]"
| "dual_call_args c = []"

fun single_call_args :: "call \<Rightarrow> single_args list" where
  "single_call_args (Single_wavelength_session_to_nwb a) = [a]"
| "single_call_args c = []"

fun converter_source :: "call \<Rightarrow> source_data list" where
  "converter_source (New_converter s) = [s]"
| "converter_source c = []"

definition dual_calls :: "call list \<Rightarrow> dual_args list" where
  "dual_calls cs = concat (map dual_call_args cs)"

definition single_calls :: "call list \<Rightarrow> single_args list" where
  "single_calls cs = concat (map single_call_args cs)"

definition converter_sources :: "call list \<Rightarrow> source_data list" where
  "converter_sources cs = concat (map converter_source cs)"

text \<open>
  A session after the one of the scripts' own \<open>__main__\<close> blocks (subject UG27; the
  experiment directory is named 240214A, which a sheet can only hold as a text), with
  a small processed-data struct, for the examples below.
\<close>

definition example_session :: session where
  "example_session =
     \<lparr>Mouse = Some ''UG27'', Experiment_Directory = Some ''240214A'',
      Raw_Imaging_File_green = ''data11.cxd'', Raw_Imaging_File_red = ''data89.cxd'',
      Processed_Data_File = ''UG27_240214A.mat'',
      Processed_Photometry_Field_green = ''ACh'', Processed_Photometry_Field_red = ''DA'',
      Processed_Behavior_Field_green = ''behav_ACh'', Processed_Behavior_Field_red = ''behav_DA'',
      Processed_Index_Field_green = ''ACh_idx'', Processed_Index_Field_red = ''DA_idx'',
      LED_Excitation_Wavelength_green = 470, LED_Excitation_Wavelength_red = 570,
      Relevant_Injected_Sensor_green = ''ACh3.0'', Relevant_Injected_Sensor_red = ''rDA3m'',
      Raw_Behavior_File = ''UG27_bb1.mat''\<rparr>"

definition example_data :: processed_data where
  "example_data =
     \<lparr>arrays = [''ACh_idx'' \<mapsto> [5, 10], ''DA_idx'' \<mapsto> [6, 11]],
      structs = [''behav_ACh'' \<mapsto> [''timestamp'' \<mapsto> [0, 1, 2]],
                 ''behav_DA'' \<mapsto> [''timestamp'' \<mapsto> [1, 2, 3]]]\<rparr>"

definition example_env :: env where
  "example_env =
     \<lparr>read_excel = (\<lambda>p. ([example_session], [(''UG27'', [(''date_of_birth'', ''2023-10-01'')])])),
      read_mat = (\<lambda>p. example_data),
      get_fiber_locations = (\<lambda>p. [\<lparr>location = ''DMS'', included = True\<rparr>,
                                    \<lparr>location = ''DLS'', included = False\<rparr>]),
      get_indicator_from_aav_string = (\<lambda>s. s),
      inspect_nwbfile = (\<lambda>c. []),
      format_messages = (\<lambda>ms. ms)\<rparr>"

definition example_single_args :: single_args where
  "example_single_args =
     \<lparr>processed_data_file_path = [''D:'', ''UG27'', ''240214A'', ''UG27_240214A.mat''],
      fiber_locations_file_path = [''D:'', ''UG27'', ''fiber_table.xlsx''],
      ttl_file_path = [''D:'', ''UG27'', ''240214A'', ''raw'', ''UG27_bb1.mat''],
      sampling_frequency = Some 18,
      subject_metadata = None,
      stub_test = False,
      raw_imaging_file_path = [''D:'', ''UG27'', ''240214A'', ''raw'', ''data11.cxd''],
      fiber_photometry_field = ''ACh'',
      index_field = ''ACh_idx'',
      excitation_wavelength_in_nm = 470,
      indicator = ''ACh3.0'',
      ttl_stream_name = ''ttlIn1'',
      behavior_field = Some ''behav_ACh'',
      frame_indices = None,
      nwbfile_path = None,
      nwbfile = None,
      aligned_starting_time = None,
      excitation_mode = ''single-wavelength''\<rparr>"

definition empty_world :: world where
  "empty_world = \<lparr>files = Map.empty, calls = []\<rparr>"

definition example_dual_args :: dual_args where
  "example_dual_args =
     session_args example_env [''D:''] [''D:'', ''NWB'', ''UG27_240214A.nwb'']
       [(''date_of_birth'', ''2023-10-01'')] ''UG27'' ''240214A'' example_session"

text \<open>The output file and the report of a group, from its key (lines 71, 85-87 and 111).\<close>

definition group_output_path :: "path \<Rightarrow> bool \<Rightarrow> (string \<times> string) \<times> session list \<Rightarrow> path" where
  "group_output_path nwbfile_folder_path stub g =
     session_nwbfile_path nwbfile_folder_path stub (strip_hyphens (fst (fst g))) (snd (fst g))"

definition group_report_path :: "path \<Rightarrow> (string \<times> string) \<times> session list \<Rightarrow> path" where
  "group_report_path nwbfile_folder_path g =
     session_report_path nwbfile_folder_path (strip_hyphens (fst (fst g))) (snd (fst g))"

definition example_run :: "env \<Rightarrow> string list \<Rightarrow> bool \<Rightarrow> world \<Rightarrow> (py_error + unit) \<times> world" where
  "example_run env subject_ids overwrite w =
     convert_all_dual_wavelength_sessions env [''D:'', ''data_table.xlsx''] [''D:''] [''D:'', ''NWB'']
       subject_ids False overwrite w"

definition world_with_report :: world where
  "world_with_report =
     \<lparr>files = [session_report_path [''D:'', ''NWB''] ''UG27'' ''240214A'' \<mapsto> Report [''old'']],
      calls = []\<rparr>"

definition world_with_output :: world where
  "world_with_output =
     \<lparr>files = [session_nwbfile_path [''D:'', ''NWB''] False ''UG27'' ''240214A'' \<mapsto> NWB []],
      calls = []\<rparr>"

definition env_without_mice :: env where
  "env_without_mice = example_env\<lparr>read_excel := (\<lambda>p. ([example_session], []))\<rparr>"

section \<open>Basic facts\<close>

lemma np_arange_upto: "np_arange a b = [a..b - 1]"
proof -
  have "length (np_arange a b) = length [a..b - 1]"
    by (simp add: np_arange_def)
  moreover have "\<And>i. i < length (np_arange a b) \<Longrightarrow> np_arange a b ! i = [a..b - 1] ! i"
    by (simp add: np_arange_def)
  ultimately show ?thesis
    by (rule nth_equalityI)
qed

lemma length_np_arange: "length (np_arange a b) = nat (b - a)"
  by (simp add: np_arange_def)

lemma frame_indices_of_pair:
  "d f = Some [s, e] \<Longrightarrow> frame_indices_of d f = Inr [s - 1..e - 1]"
  by (simp add: frame_indices_of_def getitem_def mat_item_def item_def and_then_def np_arange_upto)

lemma frame_indices_of_errors:
  "frame_indices_of d f = Inl e \<Longrightarrow> e = KeyError \<or> e = IndexError \<or> e = TypeError"
  by (auto simp: frame_indices_of_def getitem_def mat_item_def item_def and_then_def
      split: option.splits if_splits)

lemma calls_record_call: "calls (record_call c w) = calls w @ [c]"
  by (simp add: record_call_def)

lemma files_record_call: "files (record_call c w) = files w"
  by (simp add: record_call_def)

lemma calls_write_file: "calls (write_file p c w) = calls w"
  by (simp add: write_file_def)

lemma files_write_file: "files (write_file p c w) = (files w)(p \<mapsto> c)"
  by (simp add: write_file_def)

lemma converter_sources_append:
  "converter_sources (xs @ ys) = converter_sources xs @ converter_sources ys"
  by (simp add: converter_sources_def)

lemma single_calls_append: "single_calls (xs @ ys) = single_calls xs @ single_calls ys"
  by (simp add: single_calls_def)

lemma dual_calls_append: "dual_calls (xs @ ys) = dual_calls xs @ dual_calls ys"
  by (simp add: dual_calls_def)

lemma wavelength_dom:
  "excitation_wavelength_to_photon_series_name n = None \<longleftrightarrow> n \<notin> {470, 405, 415, 570}"
  by (simp add: excitation_wavelength_to_photon_series_name_def)

section \<open>The single-wavelength assembler, case by case\<close>

lemma single_index_failure:
  assumes "frame_indices_of (arrays (read_mat env (processed_data_file_path a))) (index_field a) = Inl e"
  shows "single_wavelength_session_to_nwb env a w =
    (Inl e, record_call (Read_mat (processed_data_file_path a))
                 (record_call (Single_wavelength_session_to_nwb a) w))"
  using assms by (simp add: single_wavelength_session_to_nwb_def Let_def)

lemma single_name_failure:
  assumes "frame_indices_of (arrays (read_mat env (processed_data_file_path a))) (index_field a) = Inr window"
    and "excitation_wavelength_to_photon_series_name (excitation_wavelength_in_nm a) = None"
  shows "single_wavelength_session_to_nwb env a w =
    (Inl KeyError,
     record_call (New_converter (build_source_data a window
         (accepted_list_of (get_fiber_locations env (fiber_locations_file_path a)))))
      (record_call (Get_fiber_locations (fiber_locations_file_path a))
        (record_call (Read_mat (processed_data_file_path a))
          (record_call (Single_wavelength_session_to_nwb a) w))))"
  using assms by (simp add: single_wavelength_session_to_nwb_def Let_def)

lemma single_calls_made:
  assumes "frame_indices_of (arrays (read_mat env (processed_data_file_path a))) (index_field a) = Inr window"
  shows "\<exists>rest. calls (snd (single_wavelength_session_to_nwb env a w)) =
           calls w @ [Single_wavelength_session_to_nwb a, Read_mat (processed_data_file_path a),
             Get_fiber_locations (fiber_locations_file_path a),
             New_converter (build_source_data a window
               (accepted_list_of (get_fiber_locations env (fiber_locations_file_path a))))] @ rest
           \<and> converter_sources rest = [] \<and> single_calls rest = [] \<and> dual_calls rest = []"
  using assms
  by (simp add: single_wavelength_session_to_nwb_def Let_def return_or_write_def
      calls_record_call calls_write_file converter_sources_def single_calls_def dual_calls_def
      split: option.splits)

lemma single_window:
  assumes "frame_indices_of (arrays (read_mat env (processed_data_file_path a))) (index_field a) = Inr window"
  shows "map (\<lambda>s. img_frame_indices (Imaging s))
           (converter_sources (calls (snd (single_wavelength_session_to_nwb env a w)))) =
         map (\<lambda>s. img_frame_indices (Imaging s)) (converter_sources (calls w)) @ [window]"
proof -
  from single_calls_made [OF assms, of w] obtain rest where
    "calls (snd (single_wavelength_session_to_nwb env a w)) =
           calls w @ [Single_wavelength_session_to_nwb a, Read_mat (processed_data_file_path a),
             Get_fiber_locations (fiber_locations_file_path a),
             New_converter (build_source_data a window
               (accepted_list_of (get_fiber_locations env (fiber_locations_file_path a))))] @ rest"
    and "converter_sources rest = []"
    by blast
  then show ?thesis
    by (simp add: converter_sources_append) (simp add: converter_sources_def build_source_data_def)
qed


lemma single_failure_files:
  assumes "single_wavelength_session_to_nwb env a w = (Inl e, w')"
  shows "files w' = files w"
  using assms
  by (auto simp add: single_wavelength_session_to_nwb_def Let_def return_or_write_def
      files_record_call split: sum.splits option.splits)

lemma single_success_inputs:
  assumes "single_wavelength_session_to_nwb env a w = (Inr r, w')"
  shows "\<exists>window suffix.
           frame_indices_of (arrays (read_mat env (processed_data_file_path a))) (index_field a) = Inr window
         \<and> excitation_wavelength_to_photon_series_name (excitation_wavelength_in_nm a) = Some suffix"
  using assms
  by (auto simp add: single_wavelength_session_to_nwb_def Let_def split: sum.splits option.splits)

lemma single_success:
  assumes "single_wavelength_session_to_nwb env a w = (Inr r, w')"
  shows "\<exists>c. Behavior (source c) =
               (case behavior_field a of None \<Rightarrow> None
                | Some field \<Rightarrow> Some \<lparr>beh_file_path = path_str (processed_data_file_path a),
                                      beh_data_field = field\<rparr>)
           \<and> Behavior_options (options c) =
               (case behavior_field a of None \<Rightarrow> None | Some field \<Rightarrow> Some (stub_test a))
           \<and> (case nwbfile_path a of
                 None \<Rightarrow> r = Some ((case nwbfile a of None \<Rightarrow> [] | Some h \<Rightarrow> h) @ [c])
                           \<and> files w' = files w
               | Some p \<Rightarrow> r = None
                           \<and> files w' = (files w)(p \<mapsto> NWB ((case nwbfile a of None \<Rightarrow> [] | Some h \<Rightarrow> h) @ [c])))"
proof -
  from single_success_inputs [OF assms] obtain window suffix where
    window: "frame_indices_of (arrays (read_mat env (processed_data_file_path a))) (index_field a) = Inr window"
    and suffix: "excitation_wavelength_to_photon_series_name (excitation_wavelength_in_nm a) = Some suffix"
    by blast
  let ?c = "\<lparr>source = build_source_data a window
                (accepted_list_of (get_fiber_locations env (fiber_locations_file_path a))),
             options = build_conversion_options a (get_fiber_locations env (fiber_locations_file_path a)),
             meta = build_metadata a suffix,
             starting_time = (case nwbfile a of None \<Rightarrow> None | Some h \<Rightarrow> aligned_starting_time a)\<rparr>"
  show ?thesis
    apply (rule exI [of _ ?c])
    using assms window suffix
    apply (simp add: single_wavelength_session_to_nwb_def Let_def return_or_write_def
      files_record_call files_write_file split: option.splits)
    apply (auto simp add: build_source_data_def build_conversion_options_def
        files_record_call files_write_file)
    done
qed

lemma single_calls_extended:
  "\<exists>rest. calls (snd (single_wavelength_session_to_nwb env a w)) =
           calls w @ Single_wavelength_session_to_nwb a # rest
         \<and> single_calls rest = [] \<and> dual_calls rest = []"
  by (simp add: single_wavelength_session_to_nwb_def Let_def return_or_write_def
      calls_record_call calls_write_file single_calls_def dual_calls_def
      split: sum.splits option.splits)


lemma first_call_args_fields:
  assumes "first_call_args d window t0 = Inr a"
  shows "behavior_field a = Some (behavior_fields d ! 0) \<and> frame_indices a = Some window
       \<and> nwbfile_path a = None \<and> nwbfile a = None
       \<and> ttl_stream_name a = ttl_stream_names d ! 0
       \<and> sampling_frequency a = sampling_frequency d
       \<and> stub_test a = stub_test d
       \<and> processed_data_file_path a = processed_data_file_path d"
  using assms
  by (auto simp add: first_call_args_def and_then_def item_def split: if_splits)

lemma second_call_args_fields:
  assumes "second_call_args d window t0 handle = Inr a"
  shows "behavior_field a = None \<and> frame_indices a = Some window
       \<and> nwbfile_path a = Some (dual_nwbfile_path d) \<and> nwbfile a = handle
       \<and> ttl_stream_name a = ttl_stream_names d ! 1
       \<and> sampling_frequency a = sampling_frequency d
       \<and> stub_test a = stub_test d
       \<and> processed_data_file_path a = processed_data_file_path d"
  using assms
  by (auto simp add: second_call_args_def and_then_def item_def split: if_splits)

lemma dual_success_steps:
  assumes "dual_wavelength_session_to_nwb env d w = (Inr u, w')"
  shows "\<exists>first second a1 handle w2 a2 r.
           channel_alignment (read_mat env (processed_data_file_path d)) d 0 = Inr first
         \<and> channel_alignment (read_mat env (processed_data_file_path d)) d 1 = Inr second
         \<and> first_call_args d (fst first) (snd first) = Inr a1
         \<and> single_wavelength_session_to_nwb env a1
              (record_call (Read_mat (processed_data_file_path d))
                 (record_call (Dual_wavelength_session_to_nwb d) w)) = (Inr handle, w2)
         \<and> second_call_args d (fst second) (snd second) handle = Inr a2
         \<and> single_wavelength_session_to_nwb env a2 w2 = (Inr r, w')"
  using assms
  by (auto simp add: dual_wavelength_session_to_nwb_def Let_def and_then_def
      split: sum.splits prod.splits)

lemma dual_failure_files:
  assumes "dual_wavelength_session_to_nwb env d w = (Inl e, w')"
  shows "files w' = files w"
proof -
  have a: "\<And>a v e v'. single_wavelength_session_to_nwb env a v = (Inl e, v') \<Longrightarrow> files v' = files v"
    by (rule single_failure_files)
  have b: "\<And>a v r v'. single_wavelength_session_to_nwb env a v = (Inr r, v') \<Longrightarrow> nwbfile_path a = None
              \<Longrightarrow> files v' = files v"
    using single_success by (fastforce split: option.splits)
  show ?thesis
    using assms
    by (auto simp add: dual_wavelength_session_to_nwb_def Let_def and_then_def
        files_record_call
        split: sum.splits prod.splits dest!: a b first_call_args_fields)
qed


lemma dual_success:
  assumes "dual_wavelength_session_to_nwb env d w = (Inr u, w')"
  shows "\<exists>a1 a2 c1 c2.
           single_calls (calls w') = single_calls (calls w) @ [a1, a2]
         \<and> behavior_field a1 = Some (behavior_fields d ! 0)
         \<and> behavior_field a2 = None
         \<and> files w' = (files w)(dual_nwbfile_path d \<mapsto> NWB [c1, c2])
         \<and> Behavior (source c1) =
               Some \<lparr>beh_file_path = path_str (processed_data_file_path d),
                     beh_data_field = behavior_fields d ! 0\<rparr>
         \<and> Behavior_options (options c1) = Some (stub_test d)
         \<and> Behavior (source c2) = None
         \<and> Behavior_options (options c2) = None"
proof -
  from dual_success_steps [OF assms] obtain first second a1 handle w2 a2 r where
    a1: "first_call_args d (fst first) (snd first) = Inr a1"
    and s1: "single_wavelength_session_to_nwb env a1
              (record_call (Read_mat (processed_data_file_path d))
                 (record_call (Dual_wavelength_session_to_nwb d) w)) = (Inr handle, w2)"
    and a2: "second_call_args d (fst second) (snd second) handle = Inr a2"
    and s2: "single_wavelength_session_to_nwb env a2 w2 = (Inr r, w')"
    by blast
  note f1 = first_call_args_fields [OF a1]
  note f2 = second_call_args_fields [OF a2]
  from single_success [OF s1] f1 obtain c1 where
    c1: "Behavior (source c1) =
               Some \<lparr>beh_file_path = path_str (processed_data_file_path d),
                     beh_data_field = behavior_fields d ! 0\<rparr>"
    and o1: "Behavior_options (options c1) = Some (stub_test d)"
    and h: "handle = Some [c1]" and files1: "files w2 = files w"
    by (auto simp add: files_record_call)
  from single_success [OF s2] f2 h obtain c2 where
    c2: "Behavior (source c2) = None"
    and o2: "Behavior_options (options c2) = None"
    and files2: "files w' = (files w2)(dual_nwbfile_path d \<mapsto> NWB [c1, c2])"
    by auto
  from single_calls_extended [of env a1 "record_call (Read_mat (processed_data_file_path d))
                 (record_call (Dual_wavelength_session_to_nwb d) w)"] s1
  have calls1: "single_calls (calls w2) = single_calls (calls w) @ [a1]"
    by (auto simp add: calls_record_call single_calls_append) (simp add: single_calls_def)
  from single_calls_extended [of env a2 w2] s2
  have calls2: "single_calls (calls w') = single_calls (calls w2) @ [a2]"
    by (auto simp add: single_calls_append) (simp add: single_calls_def)
  show ?thesis
    using c1 c2 o1 o2 files1 files2 calls1 calls2 f1 f2 by auto
qed

lemma dual_calls_extended:
  "\<exists>rest. calls (snd (dual_wavelength_session_to_nwb env d w)) =
           calls w @ Dual_wavelength_session_to_nwb d # rest \<and> dual_calls rest = []"
proof -
  have step: "\<And>a v r v'. single_wavelength_session_to_nwb env a v = (r, v')
        \<Longrightarrow> \<exists>rest. calls v' = calls v @ rest \<and> dual_calls rest = []"
  proof -
    fix a v r v'
    assume "single_wavelength_session_to_nwb env a v = (r, v')"
    with single_calls_extended [of env a v] show "\<exists>rest. calls v' = calls v @ rest \<and> dual_calls rest = []"
      by (auto simp add: dual_calls_def)
  qed
  show ?thesis
    by (auto simp add: dual_wavelength_session_to_nwb_def Let_def calls_record_call dual_calls_def
        split: sum.splits prod.splits dest!: step)
qed

section \<open>Frame-index windows (C1, C2)\<close>



text \<open>
  C2. A caller of the single-wavelength assembler passes the window \<open>0, 1, 2\<close> as
  \<open>frame_indices\<close>; the index field of the struct holds \<open>[5, 10]\<close>. The converter is
  built with the window \<open>4, ..., 9\<close> of the index field: the window of the caller is
  not used.
\<close>

theorem supplied_frame_indices_ignored:
  "map (\<lambda>c. img_frame_indices (Imaging c))
     (converter_sources (calls (snd (single_wavelength_session_to_nwb example_env
        (example_single_args\<lparr>frame_indices := Some [0, 1, 2]\<rparr>) empty_world)))) = [[4, 5, 6, 7, 8, 9]]"
proof -
  have "frame_indices_of (arrays (read_mat example_env
          (processed_data_file_path (example_single_args\<lparr>frame_indices := Some [0, 1, 2]\<rparr>))))
          (index_field (example_single_args\<lparr>frame_indices := Some [0, 1, 2]\<rparr>)) = Inr [5 - 1..10 - 1]"
    by (rule frame_indices_of_pair) (simp add: example_env_def example_data_def example_single_args_def)
  from single_window [OF this, of empty_world] show ?thesis
    by (simp add: empty_world_def converter_sources_def)
qed

section \<open>Photon-series names (C4, C5)\<close>

text \<open>
  C4. For an excitation wavelength outside 470, 405, 415 and 570 the single-wavelength
  assembler raises an exception, and it has then made no call that creates, extends or
  writes an output handle, and written no file. When the index field is read without
  an exception, as it is for a field that holds a pair, the exception is the \<open>KeyError\<close>
  of the name lookup, which is of the class \<open>LookupError\<close>.
\<close>

theorem unknown_wavelength_fails_before_handle:
  assumes "excitation_wavelength_in_nm a \<notin> {470, 405, 415, 570}"
  shows "(\<exists>e w'. single_wavelength_session_to_nwb env a w = (Inl e, w')
            \<and> handle_calls w' = handle_calls w \<and> files w' = files w)
       \<and> (\<forall>window.
            frame_indices_of (arrays (read_mat env (processed_data_file_path a))) (index_field a)
              = Inr window \<longrightarrow>
            (\<exists>e w'. single_wavelength_session_to_nwb env a w = (Inl e, w')
               \<and> e = KeyError \<and> is_LookupError e
               \<and> handle_calls w' = handle_calls w \<and> files w' = files w))"
proof -
  have name: "excitation_wavelength_to_photon_series_name (excitation_wavelength_in_nm a) = None"
    using assms by (simp only: wavelength_dom not_False_eq_True)
  have read: "\<exists>e w'. single_wavelength_session_to_nwb env a w = (Inl e, w')
               \<and> e = KeyError \<and> is_LookupError e
               \<and> handle_calls w' = handle_calls w \<and> files w' = files w"
    if "frame_indices_of (arrays (read_mat env (processed_data_file_path a))) (index_field a)
          = Inr window" for window
    using that name
    by (simp add: single_name_failure handle_calls_def calls_record_call files_record_call)
  have "\<exists>e w'. single_wavelength_session_to_nwb env a w = (Inl e, w')
            \<and> handle_calls w' = handle_calls w \<and> files w' = files w"
  proof (cases "frame_indices_of (arrays (read_mat env (processed_data_file_path a))) (index_field a)")
    case (Inl e)
    then show ?thesis
      by (simp add: single_index_failure handle_calls_def calls_record_call files_record_call)
  next
    case (Inr window)
    from read [OF this] show ?thesis
      by blast
  qed
  then show ?thesis
    using read by blast
qed

text \<open>
  The theorem at the example call with the wavelength 500, where the index field holds
  the pair \<open>[5, 10]\<close>: the exception is the \<open>KeyError\<close>.
\<close>

theorem unknown_wavelength_witness:
  "(500::int) \<notin> {470, 405, 415, 570}
   \<and> frame_indices_of (arrays (read_mat example_env
          (processed_data_file_path (example_single_args\<lparr>excitation_wavelength_in_nm := 500\<rparr>))))
          (index_field (example_single_args\<lparr>excitation_wavelength_in_nm := 500\<rparr>))
        = Inr [4, 5, 6, 7, 8, 9]
   \<and> (\<exists>w'. single_wavelength_session_to_nwb example_env
          (example_single_args\<lparr>excitation_wavelength_in_nm := 500\<rparr>) empty_world = (Inl KeyError, w')
        \<and> handle_calls w' = handle_calls empty_world
        \<and> files w' = files empty_world)"
proof -
  have outside: "excitation_wavelength_in_nm (example_single_args\<lparr>excitation_wavelength_in_nm := 500\<rparr>)
      \<notin> {470, 405, 415, 570}"
    by simp
  have read: "frame_indices_of (arrays (read_mat example_env
          (processed_data_file_path (example_single_args\<lparr>excitation_wavelength_in_nm := 500\<rparr>))))
          (index_field (example_single_args\<lparr>excitation_wavelength_in_nm := 500\<rparr>)) = Inr [5 - 1..10 - 1]"
    by (rule frame_indices_of_pair) (simp add: example_env_def example_data_def example_single_args_def)
  from unknown_wavelength_fails_before_handle [OF outside, of example_env empty_world] read
  have "\<exists>e w'. single_wavelength_session_to_nwb example_env
          (example_single_args\<lparr>excitation_wavelength_in_nm := 500\<rparr>) empty_world = (Inl e, w')
        \<and> e = KeyError \<and> is_LookupError e
        \<and> handle_calls w' = handle_calls empty_world \<and> files w' = files empty_world"
    by blast
  then show ?thesis
    using read by auto
qed

text \<open>
  C5. The name lookup maps 470 to \<open>Green\<close>, 405 and 415 to \<open>GreenIsosbestic\<close> and 570 to
  \<open>Red\<close>; it is defined for these four wavelengths only, and its results are the three
  names \<open>Green\<close>, \<open>GreenIsosbestic\<close> and \<open>Red\<close>.
\<close>

theorem photon_series_name_lookup:
  "excitation_wavelength_to_photon_series_name 470 = Some ''Green''
   \<and> excitation_wavelength_to_photon_series_name 405 = Some ''GreenIsosbestic''
   \<and> excitation_wavelength_to_photon_series_name 415 = Some ''GreenIsosbestic''
   \<and> excitation_wavelength_to_photon_series_name 570 = Some ''Red''
   \<and> excitation_wavelength_to_photon_series_name 405 = excitation_wavelength_to_photon_series_name 415
   \<and> dom excitation_wavelength_to_photon_series_name = {470, 405, 415, 570}
   \<and> ran excitation_wavelength_to_photon_series_name = {''Green'', ''GreenIsosbestic'', ''Red''}"
  apply (simp add: excitation_wavelength_to_photon_series_name_def)
  apply (auto simp: ran_def)
  done

section \<open>Behavior comes from the first channel only (C6)\<close>

lemma dual_example_ok:
  "fst (dual_wavelength_session_to_nwb example_env example_dual_args empty_world) = Inr ()"
  by (simp add: dual_wavelength_session_to_nwb_def single_wavelength_session_to_nwb_def
      channel_alignment_def first_call_args_def second_call_args_def
      frame_indices_of_def and_then_def getitem_def item_def mat_item_def Let_def
      example_env_def example_dual_args_def example_data_def example_session_def session_args_def
      excitation_wavelength_to_photon_series_name_def return_or_write_def
      split: sum.splits prod.splits)

text \<open>
  C6. The conversion configuration of the single-wavelength assembler has the key
  \<open>Behavior\<close>, in the source data and in the conversion options, exactly when a behavior
  field is given. The second call of the dual-wavelength assembler is given none. So
  a dual-wavelength conversion that returns has made two calls of the single-wavelength
  assembler, the first with the behavior field of channel 1 and the second with none,
  and the file it has written holds the streams of the two calls, with a Behavior
  stream in the first and none in the second. (Of the behavior struct of channel 2 the
  second call has the first timestamp, as the time its streams are aligned to.)
\<close>

theorem behavior_from_first_channel_only:
  assumes "dual_wavelength_session_to_nwb env d w = (Inr u, w')"
  shows "(\<exists>a1 a2 c1 c2.
           single_calls (calls w') = single_calls (calls w) @ [a1, a2]
         \<and> behavior_field a1 = Some (behavior_fields d ! 0)
         \<and> behavior_field a2 = None
         \<and> files w' = (files w)(dual_nwbfile_path d \<mapsto> NWB [c1, c2])
         \<and> Behavior (source c1) =
               Some \<lparr>beh_file_path = path_str (processed_data_file_path d),
                     beh_data_field = behavior_fields d ! 0\<rparr>
         \<and> Behavior_options (options c1) = Some (stub_test d)
         \<and> Behavior (source c2) = None
         \<and> Behavior_options (options c2) = None)
       \<and> (\<forall>a window accepted.
            (Behavior (build_source_data a window accepted) = None) = (behavior_field a = None))
       \<and> (\<forall>a fiber_locations.
            (Behavior_options (build_conversion_options a fiber_locations) = None)
              = (behavior_field a = None))
       \<and> (\<forall>window t0 handle.
            case second_call_args d window t0 handle of
              Inl e \<Rightarrow> True | Inr a \<Rightarrow> behavior_field a = None)"
proof -
  have "\<forall>a window accepted.
            (Behavior (build_source_data a window accepted) = None) = (behavior_field a = None)"
    by (simp add: build_source_data_def split: option.splits)
  moreover have "\<forall>a fiber_locations.
            (Behavior_options (build_conversion_options a fiber_locations) = None)
              = (behavior_field a = None)"
    by (simp add: build_conversion_options_def split: option.splits)
  moreover have "\<forall>window t0 handle.
            case second_call_args d window t0 handle of
              Inl e \<Rightarrow> True | Inr a \<Rightarrow> behavior_field a = None"
    by (auto split: sum.splits dest: second_call_args_fields)
  ultimately show ?thesis
    using dual_success [OF assms] by blast
qed

text \<open>
  The theorem at the example session, whose conversion returns: each behavior struct
  has a \<open>timestamp\<close> array of three elements.
\<close>

theorem behavior_from_first_channel_only_witness:
  "fst (dual_wavelength_session_to_nwb example_env example_dual_args empty_world) = Inr ()
   \<and> (\<exists>a1 a2 c1 c2.
         single_calls (calls (snd (dual_wavelength_session_to_nwb example_env example_dual_args
           empty_world))) = [a1, a2]
       \<and> behavior_field a1 = Some ''behav_ACh''
       \<and> behavior_field a2 = None
       \<and> files (snd (dual_wavelength_session_to_nwb example_env example_dual_args empty_world))
            [''D:'', ''NWB'', ''UG27_240214A.nwb''] = Some (NWB [c1, c2])
       \<and> Behavior (source c1) \<noteq> None
       \<and> Behavior_options (options c1) = Some False
       \<and> Behavior (source c2) = None
       \<and> Behavior_options (options c2) = None)"
proof -
  have run: "dual_wavelength_session_to_nwb example_env example_dual_args empty_world =
      (Inr (), snd (dual_wavelength_session_to_nwb example_env example_dual_args empty_world))"
    using dual_example_ok by (simp add: prod_eq_iff)
  have fields: "behavior_fields example_dual_args ! 0 = ''behav_ACh''"
    "dual_nwbfile_path example_dual_args = [''D:'', ''NWB'', ''UG27_240214A.nwb'']"
    "stub_test example_dual_args = False"
    by (simp_all add: example_dual_args_def session_args_def Let_def example_session_def)
  from behavior_from_first_channel_only [OF run] obtain a1 a2 c1 c2 where
    "single_calls (calls (snd (dual_wavelength_session_to_nwb example_env example_dual_args
           empty_world))) = single_calls (calls empty_world) @ [a1, a2]"
    "behavior_field a1 = Some (behavior_fields example_dual_args ! 0)"
    "behavior_field a2 = None"
    "files (snd (dual_wavelength_session_to_nwb example_env example_dual_args empty_world)) =
       (files empty_world)(dual_nwbfile_path example_dual_args \<mapsto> NWB [c1, c2])"
    "Behavior (source c1) \<noteq> None"
    "Behavior_options (options c1) = Some (stub_test example_dual_args)"
    "Behavior (source c2) = None"
    "Behavior_options (options c2) = None"
    by auto
  then have "single_calls (calls (snd (dual_wavelength_session_to_nwb example_env example_dual_args
           empty_world))) = [a1, a2]
       \<and> behavior_field a1 = Some ''behav_ACh''
       \<and> behavior_field a2 = None
       \<and> files (snd (dual_wavelength_session_to_nwb example_env example_dual_args empty_world))
            [''D:'', ''NWB'', ''UG27_240214A.nwb''] = Some (NWB [c1, c2])
       \<and> Behavior (source c1) \<noteq> None
       \<and> Behavior_options (options c1) = Some False
       \<and> Behavior (source c2) = None
       \<and> Behavior_options (options c2) = None"
    using fields by (simp add: empty_world_def single_calls_def)
  then show ?thesis
    using dual_example_ok by blast
qed

section \<open>The batch driver, step by step\<close>

lemma exists_path_record_call: "exists_path (record_call c w) p = exists_path w p"
  by (simp add: exists_path_def files_record_call)

lemma nwb_name_not_report_name: "a @ ''.nwb'' \<noteq> b @ ''_nwbinspector_result.txt''"
proof
  assume "a @ ''.nwb'' = b @ ''_nwbinspector_result.txt''"
  then have "last (a @ ''.nwb'') = last (b @ ''_nwbinspector_result.txt'')"
    by (rule arg_cong)
  then show False
    by simp
qed

lemma output_path_not_report_path:
  "session_nwbfile_path folder stub a b \<noteq> session_report_path folder' c d"
proof
  assume "session_nwbfile_path folder stub a b = session_report_path folder' c d"
  then have "last (session_nwbfile_path folder stub a b) = last (session_report_path folder' c d)"
    by (rule arg_cong)
  then show False
    using nwb_name_not_report_name [of "''stub-'' @ a @ ''_'' @ b" "c @ ''-'' @ d"]
      nwb_name_not_report_name [of "a @ ''_'' @ b" "c @ ''-'' @ d"]
    by (simp add: session_nwbfile_path_def session_report_path_def path_div_def split: if_splits)
qed

lemma inspector_step_files:
  "files (inspector_step env output_path report_path w) =
     (if exists_path w report_path then files w
      else (files w)(report_path \<mapsto> Report (format_messages env (inspect_nwbfile env (files w output_path)))))"
  by (simp add: inspector_step_def Let_def exists_path_record_call files_record_call files_write_file)

lemma inspector_step_calls:
  "\<exists>rest. calls (inspector_step env output_path report_path w) = calls w @ rest \<and> dual_calls rest = []"
  by (simp add: inspector_step_def Let_def calls_record_call calls_write_file dual_calls_def)

lemma convert_session_lookup_failure:
  assumes "map_of subjects_table (fst (fst g)) = None"
  shows "convert_session env subjects_table folder_path nwbfile_folder_path stub overwrite g w =
           (Inl LookupError, w)"
  using assms by (simp add: convert_session_def get_subject_metadata_from_dataframe_def)

lemma convert_session_skip:
  assumes "map_of subjects_table (fst (fst g)) \<noteq> None" and "snd g \<noteq> []"
    and "exists_path w (group_output_path nwbfile_folder_path stub g)" and "\<not> overwrite"
  shows "convert_session env subjects_table folder_path nwbfile_folder_path stub overwrite g w =
           (Inr (), w)"
  using assms
  by (auto simp add: convert_session_def get_subject_metadata_from_dataframe_def item_def
      group_output_path_def Let_def)

lemma session_args_output: "dual_nwbfile_path (session_args env fp out md sid ex row) = out"
  by (simp add: session_args_def Let_def)

lemma session_args_constants:
  "ttl_stream_names (session_args env fp out md sid ex row) = [''ttlIn1'', ''ttlIn2'']
   \<and> sampling_frequency (session_args env fp out md sid ex row) = Some 18"
  by (simp add: session_args_def Let_def)

lemma convert_session_success:
  assumes "convert_session env subjects_table folder_path nwbfile_folder_path stub overwrite g w =
           (Inr u, w')"
  shows "map_of subjects_table (fst (fst g)) \<noteq> None \<and> snd g \<noteq> []
       \<and> exists_path w' (group_output_path nwbfile_folder_path stub g)"
  using assms
  apply (auto simp add: convert_session_def get_subject_metadata_from_dataframe_def item_def
      group_output_path_def Let_def inspector_step_files exists_path_def
      split: option.splits sum.splits if_splits prod.splits dest!: dual_success)
  apply (auto simp add: session_args_output)
  done

lemma convert_session_files:
  assumes "convert_session env subjects_table folder_path nwbfile_folder_path stub overwrite g w =
           (r, w')"
    and "exists_path w p"
  shows "exists_path w' p \<and> (p \<noteq> group_output_path nwbfile_folder_path stub g \<longrightarrow> files w' p = files w p)"
  using assms
  apply (auto simp add: convert_session_def get_subject_metadata_from_dataframe_def item_def
      group_output_path_def Let_def inspector_step_files exists_path_def
      split: option.splits sum.splits if_splits prod.splits dest!: dual_success dual_failure_files)
  apply (auto simp add: session_args_output)
  done


lemma convert_session_calls:
  "\<exists>rest. calls (snd (convert_session env subjects_table folder_path nwbfile_folder_path stub overwrite g w))
            = calls w @ rest
         \<and> (\<forall>d \<in> set (dual_calls rest).
               ttl_stream_names d = [''ttlIn1'', ''ttlIn2''] \<and> sampling_frequency d = Some 18)"
proof -
  have dual: "\<And>d v r v'. dual_wavelength_session_to_nwb env d v = (r, v')
      \<Longrightarrow> \<exists>rest. calls v' = calls v @ Dual_wavelength_session_to_nwb d # rest \<and> dual_calls rest = []"
  proof -
    fix d v r v'
    assume "dual_wavelength_session_to_nwb env d v = (r, v')"
    with dual_calls_extended [of env d v]
    show "\<exists>rest. calls v' = calls v @ Dual_wavelength_session_to_nwb d # rest \<and> dual_calls rest = []"
      by simp
  qed
  have empty: "\<exists>rest. calls w = calls w @ rest
         \<and> (\<forall>d \<in> set (dual_calls rest).
               ttl_stream_names d = [''ttlIn1'', ''ttlIn2''] \<and> sampling_frequency d = Some 18)"
    by (simp add: dual_calls_def)
  show ?thesis
  proof (cases "get_subject_metadata_from_dataframe (fst (fst g)) subjects_table")
    case (Inl e)
    then show ?thesis
      using empty by (simp add: convert_session_def)
  next
    case md: (Inr subject_md)
    show ?thesis
    proof (cases "item (snd g) 0")
      case (Inl e)
      then show ?thesis
        using empty md by (simp add: convert_session_def)
    next
      case row: (Inr row)
      let ?out = "session_nwbfile_path nwbfile_folder_path stub (strip_hyphens (fst (fst g))) (snd (fst g))"
      let ?d = "session_args env folder_path ?out subject_md (strip_hyphens (fst (fst g))) (snd (fst g)) row"
      show ?thesis
      proof (cases "exists_path w ?out \<and> \<not> overwrite")
        case True
        then show ?thesis
          using empty md row by (simp add: convert_session_def Let_def)
      next
        case False
        obtain r v where run: "dual_wavelength_session_to_nwb env ?d w = (r, v)"
          by (cases "dual_wavelength_session_to_nwb env ?d w") blast
        from dual [OF run] obtain rest where
          rest: "calls v = calls w @ Dual_wavelength_session_to_nwb ?d # rest" "dual_calls rest = []"
          by blast
        show ?thesis
        proof (cases r)
          case (Inl e)
          then have "snd (convert_session env subjects_table folder_path nwbfile_folder_path stub overwrite g w) = v"
            using md row False run by (auto simp add: convert_session_def Let_def)
          then show ?thesis
            using rest session_args_constants [of env folder_path ?out subject_md
                "strip_hyphens (fst (fst g))" "snd (fst g)" row]
            by (auto simp add: dual_calls_def)
        next
          case (Inr x)
          then have "snd (convert_session env subjects_table folder_path nwbfile_folder_path stub overwrite g w) =
              inspector_step env ?out
                (session_report_path nwbfile_folder_path (strip_hyphens (fst (fst g))) (snd (fst g))) v"
            using md row False run by (auto simp add: convert_session_def Let_def)
          moreover from inspector_step_calls [of env ?out
              "session_report_path nwbfile_folder_path (strip_hyphens (fst (fst g))) (snd (fst g))" v]
          obtain more where "calls (inspector_step env ?out
                (session_report_path nwbfile_folder_path (strip_hyphens (fst (fst g))) (snd (fst g))) v)
               = calls v @ more" "dual_calls more = []"
            by blast
          ultimately show ?thesis
            using rest session_args_constants [of env folder_path ?out subject_md
                "strip_hyphens (fst (fst g))" "snd (fst g)" row]
            by (auto simp add: dual_calls_def)
        qed
      qed
    qed
  qed
qed

lemma convert_sessions_calls:
  "\<exists>rest. calls (snd (convert_sessions env subjects_table folder_path nwbfile_folder_path stub overwrite gs w))
            = calls w @ rest
         \<and> (\<forall>d \<in> set (dual_calls rest).
               ttl_stream_names d = [''ttlIn1'', ''ttlIn2''] \<and> sampling_frequency d = Some 18)"
proof (induction gs arbitrary: w)
  case Nil
  show ?case
    by (simp add: dual_calls_def)
next
  case (Cons g gs)
  obtain r v where step: "convert_session env subjects_table folder_path nwbfile_folder_path stub overwrite g w = (r, v)"
    by (cases "convert_session env subjects_table folder_path nwbfile_folder_path stub overwrite g w") blast
  from convert_session_calls [of env subjects_table folder_path nwbfile_folder_path stub overwrite g w] step
  obtain rest where rest: "calls v = calls w @ rest"
    "\<forall>d \<in> set (dual_calls rest). ttl_stream_names d = [''ttlIn1'', ''ttlIn2''] \<and> sampling_frequency d = Some 18"
    by auto
  show ?case
  proof (cases r)
    case (Inl e)
    then show ?thesis
      using step rest by auto
  next
    case (Inr u)
    from Cons.IH [of v] obtain more where
      "calls (snd (convert_sessions env subjects_table folder_path nwbfile_folder_path stub overwrite gs v))
         = calls v @ more"
      "\<forall>d \<in> set (dual_calls more). ttl_stream_names d = [''ttlIn1'', ''ttlIn2''] \<and> sampling_frequency d = Some 18"
      by blast
    then show ?thesis
      using step rest Inr by (auto simp add: dual_calls_append)
  qed
qed

lemma convert_sessions_files:
  assumes "convert_sessions env subjects_table folder_path nwbfile_folder_path stub overwrite gs w = (r, w')"
    and "exists_path w p"
  shows "exists_path w' p
       \<and> ((\<forall>g \<in> set gs. p \<noteq> group_output_path nwbfile_folder_path stub g) \<longrightarrow> files w' p = files w p)"
  using assms
proof (induction gs arbitrary: w)
  case Nil
  then show ?case
    by simp
next
  case (Cons g gs)
  obtain r1 v where step: "convert_session env subjects_table folder_path nwbfile_folder_path stub overwrite g w = (r1, v)"
    by (cases "convert_session env subjects_table folder_path nwbfile_folder_path stub overwrite g w") blast
  note one = convert_session_files [OF step Cons.prems(2)]
  show ?case
  proof (cases r1)
    case (Inl e)
    then show ?thesis
      using step one Cons.prems(1) by auto
  next
    case (Inr u)
    then have "convert_sessions env subjects_table folder_path nwbfile_folder_path stub overwrite gs v = (r, w')"
      using step Cons.prems(1) by simp
    from Cons.IH [OF this] one show ?thesis
      by auto
  qed
qed

lemma convert_sessions_success:
  assumes "convert_sessions env subjects_table folder_path nwbfile_folder_path stub overwrite gs w = (Inr u, w')"
  shows "\<forall>g \<in> set gs. map_of subjects_table (fst (fst g)) \<noteq> None \<and> snd g \<noteq> []
           \<and> exists_path w' (group_output_path nwbfile_folder_path stub g)"
  using assms
proof (induction gs arbitrary: w)
  case Nil
  then show ?case
    by simp
next
  case (Cons g gs)
  obtain r1 v where step: "convert_session env subjects_table folder_path nwbfile_folder_path stub overwrite g w = (r1, v)"
    by (cases "convert_session env subjects_table folder_path nwbfile_folder_path stub overwrite g w") blast
  show ?case
  proof (cases r1)
    case (Inl e)
    then show ?thesis
      using step Cons.prems by simp
  next
    case (Inr x)
    then have rest: "convert_sessions env subjects_table folder_path nwbfile_folder_path stub overwrite gs v = (Inr u, w')"
      using step Cons.prems by simp
    from step Inr have "convert_session env subjects_table folder_path nwbfile_folder_path stub overwrite g w = (Inr x, v)"
      by simp
    from convert_session_success [OF this] convert_sessions_files [OF rest] Cons.IH [OF rest]
    show ?thesis
      by auto
  qed
qed

lemma convert_sessions_skip:
  assumes "\<forall>g \<in> set gs. map_of subjects_table (fst (fst g)) \<noteq> None \<and> snd g \<noteq> []
           \<and> exists_path w (group_output_path nwbfile_folder_path stub g)"
  shows "convert_sessions env subjects_table folder_path nwbfile_folder_path stub False gs w = (Inr (), w)"
  using assms
  by (induction gs) (simp_all add: convert_session_skip)

lemma convert_sessions_missing_subject:
  assumes "\<forall>g \<in> set gs. snd g \<noteq> [] \<and> exists_path w (group_output_path nwbfile_folder_path stub g)"
    and "\<exists>g \<in> set gs. map_of subjects_table (fst (fst g)) = None"
  shows "convert_sessions env subjects_table folder_path nwbfile_folder_path stub False gs w =
           (Inl LookupError, w)"
  using assms
proof (induction gs)
  case Nil
  then show ?case
    by simp
next
  case (Cons g gs)
  show ?case
  proof (cases "map_of subjects_table (fst (fst g)) = None")
    case True
    then show ?thesis
      by (simp add: convert_session_lookup_failure)
  next
    case False
    then have "convert_session env subjects_table folder_path nwbfile_folder_path stub False g w = (Inr (), w)"
      using Cons.prems(1) by (simp add: convert_session_skip)
    moreover have "\<exists>g \<in> set gs. map_of subjects_table (fst (fst g)) = None"
      using False Cons.prems(2) by auto
    ultimately show ?thesis
      using Cons.IH Cons.prems(1) by simp
  qed
qed


lemma session_groups_nonempty:
  assumes "g \<in> set (session_groups t)"
  shows "snd g \<noteq> [] \<and> (\<exists>r \<in> set t. session_key r = Some (fst g))"
proof -
  from assms obtain k where k: "k \<in> set (List.map_filter session_key t)"
    and g: "g = (k, filter (\<lambda>r. session_key r = Some k) t)"
    by (auto simp add: session_groups_def)
  from k obtain r where "r \<in> set t" "session_key r = Some k"
    by (auto simp add: map_filter_def)
  then show ?thesis
    using g by (auto simp add: filter_empty_conv)
qed

lemma session_groups_covers:
  assumes "r \<in> set t" and "session_key r = Some k"
  shows "\<exists>g \<in> set (session_groups t). fst g = k"
proof -
  have "k \<in> set (List.map_filter session_key t)"
    using assms by (force simp add: map_filter_def)
  then show ?thesis
    by (auto simp add: session_groups_def intro!: bexI [of _ k])
qed

lemma convert_sessions_append:
  "convert_sessions env subjects_table folder_path nwbfile_folder_path stub overwrite (xs @ ys) w =
     (case convert_sessions env subjects_table folder_path nwbfile_folder_path stub overwrite xs w of
        (Inl e, w1) \<Rightarrow> (Inl e, w1)
      | (Inr u, w1) \<Rightarrow>
          convert_sessions env subjects_table folder_path nwbfile_folder_path stub overwrite ys w1)"
  by (induction xs arbitrary: w) (auto split: sum.splits prod.splits)

lemma convert_sessions_aborts:
  assumes "\<exists>g \<in> set gs. map_of subjects_table (fst (fst g)) = None"
  shows "\<exists>e w'. convert_sessions env subjects_table folder_path nwbfile_folder_path stub overwrite gs w = (Inl e, w')"
  using assms
proof (induction gs arbitrary: w)
  case Nil
  then show ?case
    by simp
next
  case (Cons g gs)
  obtain r v where step: "convert_session env subjects_table folder_path nwbfile_folder_path stub overwrite g w = (r, v)"
    by (cases "convert_session env subjects_table folder_path nwbfile_folder_path stub overwrite g w") blast
  show ?case
  proof (cases r)
    case (Inl e)
    then show ?thesis
      using step by simp
  next
    case (Inr u)
    then have "map_of subjects_table (fst (fst g)) \<noteq> None"
      using step convert_session_lookup_failure [of subjects_table g env folder_path nwbfile_folder_path stub overwrite w]
      by auto
    then have "\<exists>g \<in> set gs. map_of subjects_table (fst (fst g)) = None"
      using Cons.prems by auto
    from Cons.IH [OF this, of v] show ?thesis
      using step Inr by simp
  qed
qed


lemmas run_simps =
  example_run_def convert_all_dual_wavelength_sessions_def session_groups_def session_key_def
  convert_session_def get_subject_metadata_from_dataframe_def inspector_step_def
  dual_wavelength_session_to_nwb_def single_wavelength_session_to_nwb_def
  channel_alignment_def first_call_args_def second_call_args_def
  frame_indices_of_def and_then_def getitem_def item_def mat_item_def astype_str_def Let_def
  example_env_def example_data_def example_session_def session_args_def
  excitation_wavelength_to_photon_series_name_def return_or_write_def
  exists_path_def files_record_call files_write_file calls_record_call calls_write_file
  session_nwbfile_path_def session_report_path_def strip_hyphens_def path_div_def

lemma example_run_ok: "fst (example_run example_env [''UG27''] False empty_world) = Inr ()"
  by (simp add: run_simps empty_world_def split: sum.splits prod.splits)

lemma example_run_with_report_ok: "fst (example_run example_env [''UG27''] True world_with_report) = Inr ()"
  by (simp add: run_simps world_with_report_def split: sum.splits prod.splits)

lemma example_run_dual_calls:
  "length (dual_calls (calls (snd (example_run example_env [''UG27''] False empty_world)))) = 1"
  by (simp add: run_simps empty_world_def dual_calls_def split: sum.splits prod.splits)

section \<open>No matching session (C3)\<close>

text \<open>
  C3. When no row of the session table has a subject among the requested identifiers,
  the batch driver raises the \<open>ValueError\<close> of lines 51-52, the configuration error of
  the spec, and the world is as before: no file is written and no call of the
  assemblers, the readers, the converter, the writer or the inspector is made.
\<close>

theorem no_matching_session_is_an_error:
  assumes "set subject_ids \<inter> (\<lambda>r. astype_str (Mouse r)) ` set (fst (read_excel env data_table_path)) = {}"
  shows "convert_all_dual_wavelength_sessions env data_table_path folder_path nwbfile_folder_path
           subject_ids stub overwrite w = (Inl ValueError, w)"
proof -
  have "filter (\<lambda>r. astype_str (Mouse r) \<in> set subject_ids) (fst (read_excel env data_table_path)) = []"
    using assms by (auto simp add: filter_empty_conv)
  then show ?thesis
    by (simp add: convert_all_dual_wavelength_sessions_def Let_def)
qed

text \<open>The theorem at the example table, which has no session of subject UG99.\<close>

theorem no_matching_session_witness:
  "set [''UG99''] \<inter> (\<lambda>r. astype_str (Mouse r)) ` set (fst (read_excel example_env [''D:'', ''data_table.xlsx''])) = {}
   \<and> example_run example_env [''UG99''] False empty_world = (Inl ValueError, empty_world)"
proof -
  have disjoint: "set [''UG99''] \<inter> (\<lambda>r. astype_str (Mouse r)) ` set (fst (read_excel example_env [''D:'', ''data_table.xlsx''])) = {}"
    by (simp add: example_env_def example_session_def astype_str_def)
  from no_matching_session_is_an_error [OF disjoint] disjoint show ?thesis
    by (simp add: example_run_def)
qed

section \<open>A second run without overwrite (C7)\<close>

text \<open>
  C7. After a run of the batch driver with \<open>overwrite=False\<close> that returns, a second
  run on the same inputs returns with the world unchanged: it writes no file and
  makes no call. Every group has its output file by then, and is skipped with the
  world unchanged.
\<close>

theorem second_run_is_a_no_op:
  assumes "convert_all_dual_wavelength_sessions env data_table_path folder_path nwbfile_folder_path
             subject_ids stub False w = (Inr u, w1)"
  shows "convert_all_dual_wavelength_sessions env data_table_path folder_path nwbfile_folder_path
             subject_ids stub False w1 = (Inr (), w1)
       \<and> (\<forall>g \<in> set (session_groups (filter (\<lambda>r. astype_str (Mouse r) \<in> set subject_ids)
                       (fst (read_excel env data_table_path)))).
             exists_path w1 (group_output_path nwbfile_folder_path stub g)
           \<and> convert_session env (snd (read_excel env data_table_path)) folder_path
               nwbfile_folder_path stub False g w1 = (Inr (), w1))"
proof -
  let ?rows = "filter (\<lambda>r. astype_str (Mouse r) \<in> set subject_ids) (fst (read_excel env data_table_path))"
  let ?mice = "snd (read_excel env data_table_path)"
  have rows: "?rows \<noteq> []"
    using assms by (auto simp add: convert_all_dual_wavelength_sessions_def Let_def split: if_splits)
  then have "convert_sessions env ?mice folder_path nwbfile_folder_path stub False
               (session_groups ?rows) w = (Inr u, w1)"
    using assms by (simp add: convert_all_dual_wavelength_sessions_def Let_def)
  from convert_sessions_success [OF this]
  have skipped: "\<forall>g \<in> set (session_groups ?rows). map_of ?mice (fst (fst g)) \<noteq> None \<and> snd g \<noteq> []
           \<and> exists_path w1 (group_output_path nwbfile_folder_path stub g)" .
  then have "convert_sessions env ?mice folder_path nwbfile_folder_path stub False
               (session_groups ?rows) w1 = (Inr (), w1)"
    by (rule convert_sessions_skip)
  then have "convert_all_dual_wavelength_sessions env data_table_path folder_path nwbfile_folder_path
             subject_ids stub False w1 = (Inr (), w1)"
    using rows by (simp add: convert_all_dual_wavelength_sessions_def Let_def)
  then show ?thesis
    using skipped by (simp add: convert_session_skip)
qed

text \<open>The theorem at the example: the first run from the empty world returns.\<close>

theorem second_run_witness:
  "fst (example_run example_env [''UG27''] False empty_world) = Inr ()
   \<and> example_run example_env [''UG27''] False (snd (example_run example_env [''UG27''] False empty_world))
       = (Inr (), snd (example_run example_env [''UG27''] False empty_world))"
proof -
  have "example_run example_env [''UG27''] False empty_world =
      (Inr (), snd (example_run example_env [''UG27''] False empty_world))"
    using example_run_ok by (simp add: prod_eq_iff)
  then have "convert_all_dual_wavelength_sessions example_env [''D:'', ''data_table.xlsx''] [''D:'']
      [''D:'', ''NWB''] [''UG27''] False False empty_world =
      (Inr (), snd (example_run example_env [''UG27''] False empty_world))"
    by (simp add: example_run_def)
  from second_run_is_a_no_op [OF this] show ?thesis
    using example_run_ok by (simp add: example_run_def)
qed

section \<open>An existing report is kept (C8)\<close>

text \<open>
  C8. When a file exists at the report path of a session, the inspector step only
  inspects: it saves no report and leaves every file as it is. A whole run of the
  batch driver, with any flags, leaves the file at that path as it is, so that it
  is still there for the next run.
\<close>

theorem existing_report_is_kept:
  assumes "exists_path w (session_report_path nwbfile_folder_path subject_id exp_dir)"
  shows "inspector_step env output_path (session_report_path nwbfile_folder_path subject_id exp_dir) w
           = record_call (Inspect_nwbfile output_path) w
       \<and> files (inspector_step env output_path
                  (session_report_path nwbfile_folder_path subject_id exp_dir) w) = files w
       \<and> files (snd (convert_all_dual_wavelength_sessions env data_table_path folder_path
                  nwbfile_folder_path subject_ids stub overwrite w))
            (session_report_path nwbfile_folder_path subject_id exp_dir)
           = files w (session_report_path nwbfile_folder_path subject_id exp_dir)
       \<and> exists_path (snd (convert_all_dual_wavelength_sessions env data_table_path folder_path
                  nwbfile_folder_path subject_ids stub overwrite w))
            (session_report_path nwbfile_folder_path subject_id exp_dir)"
proof -
  let ?rp = "session_report_path nwbfile_folder_path subject_id exp_dir"
  let ?rows = "filter (\<lambda>r. astype_str (Mouse r) \<in> set subject_ids) (fst (read_excel env data_table_path))"
  let ?mice = "snd (read_excel env data_table_path)"
  have step: "inspector_step env output_path ?rp w = record_call (Inspect_nwbfile output_path) w"
    using assms by (simp add: inspector_step_def Let_def exists_path_record_call)
  obtain r w' where loop: "convert_sessions env ?mice folder_path nwbfile_folder_path stub overwrite
      (session_groups ?rows) w = (r, w')"
    by (cases "convert_sessions env ?mice folder_path nwbfile_folder_path stub overwrite
      (session_groups ?rows) w") blast
  have "\<forall>g \<in> set (session_groups ?rows). ?rp \<noteq> group_output_path nwbfile_folder_path stub g"
    using output_path_not_report_path by (metis group_output_path_def)
  with convert_sessions_files [OF loop assms] have "exists_path w' ?rp \<and> files w' ?rp = files w ?rp"
    by blast
  then have "exists_path (snd (convert_all_dual_wavelength_sessions env data_table_path folder_path
                  nwbfile_folder_path subject_ids stub overwrite w)) ?rp
      \<and> files (snd (convert_all_dual_wavelength_sessions env data_table_path folder_path
                  nwbfile_folder_path subject_ids stub overwrite w)) ?rp = files w ?rp"
    using loop assms by (simp add: convert_all_dual_wavelength_sessions_def Let_def)
  then show ?thesis
    using step by (simp add: files_record_call)
qed

text \<open>
  The theorem at the example, run with \<open>overwrite=True\<close> on a world that holds a report
  for the session: the session is converted, and the report still has its old text.
\<close>

theorem existing_report_witness:
  "exists_path world_with_report (session_report_path [''D:'', ''NWB''] ''UG27'' ''240214A'')
   \<and> fst (example_run example_env [''UG27''] True world_with_report) = Inr ()
   \<and> files (snd (example_run example_env [''UG27''] True world_with_report))
        (session_report_path [''D:'', ''NWB''] ''UG27'' ''240214A'') = Some (Report [''old''])"
proof -
  have there: "exists_path world_with_report (session_report_path [''D:'', ''NWB''] ''UG27'' ''240214A'')"
    by (simp add: exists_path_def world_with_report_def)
  from existing_report_is_kept [OF there, of example_env "[]" "[''D:'', ''data_table.xlsx'']"
      "[''D:'']" "[''UG27'']" False True]
  have "files (snd (example_run example_env [''UG27''] True world_with_report))
        (session_report_path [''D:'', ''NWB''] ''UG27'' ''240214A'') =
        files world_with_report (session_report_path [''D:'', ''NWB''] ''UG27'' ''240214A'')"
    by (simp add: example_run_def)
  then show ?thesis
    using there example_run_with_report_ok by (simp add: world_with_report_def)
qed


section \<open>A missing subject is not shielded by the skip (C9)\<close>

text \<open>
  C9. Let a group of the selected sessions have a subject that is absent from the
  "Mice" table. The loop body for a group of this subject raises the \<open>LookupError\<close> of
  the subject lookup with the world unchanged, whatever the flags and whether or not
  the output file exists: the lookup comes before the check for the output file. So
  the batch never returns, and when the groups before this one are done without an
  exception, the batch ends at this group with that \<open>LookupError\<close>.
\<close>

theorem missing_subject_aborts_before_skip:
  assumes "session_groups (filter (\<lambda>r. astype_str (Mouse r) \<in> set subject_ids)
             (fst (read_excel env data_table_path))) = earlier @ g # later"
    and "map_of (snd (read_excel env data_table_path)) (fst (fst g)) = None"
    and "convert_sessions env (snd (read_excel env data_table_path)) folder_path
           nwbfile_folder_path stub overwrite earlier w = (Inr u, w1)"
  shows "(\<forall>rows st ov v. convert_session env (snd (read_excel env data_table_path)) folder_path
             nwbfile_folder_path st ov (fst g, rows) v = (Inl LookupError, v))
       \<and> convert_all_dual_wavelength_sessions env data_table_path folder_path
             nwbfile_folder_path subject_ids stub overwrite w = (Inl LookupError, w1)
       \<and> (\<forall>st ov v. \<exists>e v'. convert_all_dual_wavelength_sessions env data_table_path folder_path
             nwbfile_folder_path subject_ids st ov v = (Inl e, v'))"
proof -
  let ?rows = "filter (\<lambda>r. astype_str (Mouse r) \<in> set subject_ids) (fst (read_excel env data_table_path))"
  let ?mice = "snd (read_excel env data_table_path)"
  have group: "\<forall>rows st ov v. convert_session env ?mice folder_path
             nwbfile_folder_path st ov (fst g, rows) v = (Inl LookupError, v)"
    using assms(2) by (simp add: convert_session_lookup_failure)
  have rows: "?rows \<noteq> []"
  proof
    assume "?rows = []"
    then have "session_groups ?rows = []"
      by (simp add: session_groups_def map_filter_def)
    then show False
      using assms(1) by simp
  qed
  have "convert_session env ?mice folder_path nwbfile_folder_path stub overwrite g w1
          = (Inl LookupError, w1)"
    using assms(2) by (rule convert_session_lookup_failure)
  then have "convert_sessions env ?mice folder_path nwbfile_folder_path stub overwrite
               (session_groups ?rows) w = (Inl LookupError, w1)"
    using assms(3) unfolding assms(1) by (simp add: convert_sessions_append)
  then have run: "convert_all_dual_wavelength_sessions env data_table_path folder_path
             nwbfile_folder_path subject_ids stub overwrite w = (Inl LookupError, w1)"
    using rows by (simp add: convert_all_dual_wavelength_sessions_def Let_def)
  have missing: "\<exists>g \<in> set (session_groups ?rows). map_of ?mice (fst (fst g)) = None"
    using assms(1,2) by auto
  have never: "\<exists>e v'. convert_all_dual_wavelength_sessions env data_table_path folder_path
             nwbfile_folder_path subject_ids st ov v = (Inl e, v')" for st ov v
    using convert_sessions_aborts [OF missing, of env folder_path nwbfile_folder_path st ov v] rows
    by (simp add: convert_all_dual_wavelength_sessions_def Let_def)
  show ?thesis
    using group run never by blast
qed

text \<open>
  The theorem at the example session with an empty "Mice" table, on a world that holds
  the output file of the session, with \<open>overwrite=False\<close>: the session is the only group.
\<close>

theorem missing_subject_witness:
  "session_groups (filter (\<lambda>r. astype_str (Mouse r) \<in> set [''UG27''])
      (fst (read_excel env_without_mice [''D:'', ''data_table.xlsx''])))
     = [] @ ((''UG27'', ''240214A''), [example_session]) # []
   \<and> map_of (snd (read_excel env_without_mice [''D:'', ''data_table.xlsx''])) ''UG27'' = None
   \<and> exists_path world_with_output (session_nwbfile_path [''D:'', ''NWB''] False ''UG27'' ''240214A'')
   \<and> example_run env_without_mice [''UG27''] False world_with_output = (Inl LookupError, world_with_output)"
proof -
  have groups: "session_groups (filter (\<lambda>r. astype_str (Mouse r) \<in> set [''UG27''])
      (fst (read_excel env_without_mice [''D:'', ''data_table.xlsx''])))
     = [] @ ((''UG27'', ''240214A''), [example_session]) # []"
    by (simp add: env_without_mice_def session_groups_def session_key_def astype_str_def
        example_session_def)
  have missing: "map_of (snd (read_excel env_without_mice [''D:'', ''data_table.xlsx'']))
      (fst (fst ((''UG27'', ''240214A''), [example_session]))) = None"
    by (simp add: env_without_mice_def)
  have there: "exists_path world_with_output (session_nwbfile_path [''D:'', ''NWB''] False ''UG27'' ''240214A'')"
    by (simp add: exists_path_def world_with_output_def)
  have earlier: "convert_sessions env_without_mice
      (snd (read_excel env_without_mice [''D:'', ''data_table.xlsx''])) [''D:''] [''D:'', ''NWB'']
      False False [] world_with_output = (Inr (), world_with_output)"
    by simp
  from missing_subject_aborts_before_skip [OF groups missing earlier]
  have "example_run env_without_mice [''UG27''] False world_with_output = (Inl LookupError, world_with_output)"
    unfolding example_run_def by blast
  then show ?thesis
    using groups missing there by simp
qed

section \<open>Fixed stream names and sampling frequency (C10)\<close>

text \<open>
  C10. Every call of the dual-wavelength assembler that a run of the batch driver
  makes has the TTL stream names \<open>ttlIn1\<close> and \<open>ttlIn2\<close> and the sampling frequency 18:
  the arguments of the call hold these constants for every row of the table.
\<close>

theorem fixed_ttl_stream_names_and_sampling_frequency:
  "(\<forall>d \<in> set (drop (length (dual_calls (calls w)))
       (dual_calls (calls (snd (convert_all_dual_wavelength_sessions env data_table_path
          folder_path nwbfile_folder_path subject_ids stub overwrite w))))).
      ttl_stream_names d = [''ttlIn1'', ''ttlIn2''] \<and> sampling_frequency d = Some 18)
   \<and> (\<forall>output_path subject_md subject_id exp_dir row.
        ttl_stream_names (session_args env folder_path output_path subject_md subject_id exp_dir row)
          = [''ttlIn1'', ''ttlIn2'']
      \<and> sampling_frequency (session_args env folder_path output_path subject_md subject_id exp_dir row)
          = Some 18)"
proof -
  let ?rows = "filter (\<lambda>r. astype_str (Mouse r) \<in> set subject_ids) (fst (read_excel env data_table_path))"
  let ?mice = "snd (read_excel env data_table_path)"
  let ?run = "convert_all_dual_wavelength_sessions env data_table_path
          folder_path nwbfile_folder_path subject_ids stub overwrite w"
  have "\<exists>rest. calls (snd ?run) = calls w @ rest
         \<and> (\<forall>d \<in> set (dual_calls rest).
               ttl_stream_names d = [''ttlIn1'', ''ttlIn2''] \<and> sampling_frequency d = Some 18)"
  proof (cases "?rows = []")
    case True
    then show ?thesis
      by (simp add: convert_all_dual_wavelength_sessions_def Let_def dual_calls_def)
  next
    case False
    then have "snd ?run = snd (convert_sessions env ?mice folder_path nwbfile_folder_path stub overwrite
        (session_groups ?rows) w)"
      by (simp add: convert_all_dual_wavelength_sessions_def Let_def)
    then show ?thesis
      using convert_sessions_calls [of env ?mice folder_path nwbfile_folder_path stub overwrite
          "session_groups ?rows" w]
      by simp
  qed
  then obtain rest where "calls (snd ?run) = calls w @ rest"
    "\<forall>d \<in> set (dual_calls rest).
               ttl_stream_names d = [''ttlIn1'', ''ttlIn2''] \<and> sampling_frequency d = Some 18"
    by blast
  then have "\<forall>d \<in> set (drop (length (dual_calls (calls w))) (dual_calls (calls (snd ?run)))).
      ttl_stream_names d = [''ttlIn1'', ''ttlIn2''] \<and> sampling_frequency d = Some 18"
    by (simp add: dual_calls_append)
  then show ?thesis
    using session_args_constants by blast
qed

text \<open>The theorem at the example run, which makes one such call.\<close>

theorem fixed_ttl_stream_names_witness:
  "map (\<lambda>d. (ttl_stream_names d, sampling_frequency d))
     (dual_calls (calls (snd (example_run example_env [''UG27''] False empty_world))))
   = [([''ttlIn1'', ''ttlIn2''], Some 18)]"
proof -
  from example_run_dual_calls obtain d where
    one: "dual_calls (calls (snd (example_run example_env [''UG27''] False empty_world))) = [d]"
    by (auto simp add: length_Suc_conv)
  from fixed_ttl_stream_names_and_sampling_frequency [of empty_world example_env
      "[''D:'', ''data_table.xlsx'']" "[''D:'']" "[''D:'', ''NWB'']" "[''UG27'']" False False]
  have "\<forall>d \<in> set (dual_calls (calls (snd (example_run example_env [''UG27''] False empty_world)))).
      ttl_stream_names d = [''ttlIn1'', ''ttlIn2''] \<and> sampling_frequency d = Some 18"
    by (simp add: example_run_def empty_world_def dual_calls_def)
  then show ?thesis
    using one by simp
qed

end
